theory Spec2Isabelle
  imports Complex_Main "HOL-Library.Word"
begin

section \<open>The graphics interface, as the engine sees it\<close>

text \<open>
  The engine of \<^verbatim>\<open>main.cpp\<close> (and its sibling variants) talks to two external
  collaborators: the GLES/EGL driver and the host's original present function. Neither
  is part of the repository. Both are modelled the same way: every call the code makes
  is appended to a trace, and a call that hands a value back (a generated name, a
  created object, a queried attribute, the result of the original present function)
  takes that value from a reply stream \<open>drv\<close>, indexed by the position of the call in
  the trace. A theorem that holds for every \<open>drv\<close> holds for every behaviour of the
  driver, including failures (a name that stays 0, a program id of 0).
\<close>

type_synonym GLuint = "32 word"
type_synonym GLint = "32 word"
type_synonym EGLBoolean = "32 word"
type_synonym EGLDisplay = "64 word"
type_synonym EGLSurface = "64 word"
type_synonym fnptr = "64 word"
type_synonym driver = "nat \<Rightarrow> 32 word"

datatype shader_type = GL_VERTEX_SHADER | GL_FRAGMENT_SHADER

datatype shader_source =
    vert | frag_blur | frag_draw
  | vertexShaderSource | smartFragmentShaderSource | drawFragmentShaderSource

datatype buffer_target = GL_ARRAY_BUFFER | GL_ELEMENT_ARRAY_BUFFER

datatype fb_target = GL_FRAMEBUFFER | GL_READ_FRAMEBUFFER | GL_DRAW_FRAMEBUFFER

datatype capability = GL_SCISSOR_TEST | GL_DEPTH_TEST | GL_BLEND

datatype tex_pname =
  GL_TEXTURE_MIN_FILTER | GL_TEXTURE_MAG_FILTER | GL_TEXTURE_WRAP_S | GL_TEXTURE_WRAP_T

datatype tex_param = GL_LINEAR | GL_CLAMP_TO_EDGE

datatype surface_attribute = EGL_WIDTH | EGL_HEIGHT

datatype buffer_data = vertex_floats "int list" | index_shorts "nat list"

text \<open>
  One constructor per entry point, with the arguments the source passes. An argument
  that is the same constant at every call site (the texture target, the pixel format,
  \<^verbatim>\<open>GL_FLOAT\<close>, \<^verbatim>\<open>GL_TRIANGLES\<close>, the blit mask and filter) is left out:
  \<open>glTexImage2D\<close> keeps width and height, \<open>glVertexAttribPointer\<close> keeps index, size,
  stride and offset, \<open>glBufferData\<close> keeps the target, the size in bytes and the data,
  \<open>glDrawElements\<close> keeps the count, \<open>glGetFramebufferBinding\<close> is
  \<^verbatim>\<open>glGetIntegerv(GL_FRAMEBUFFER_BINDING, ...)\<close>, and \<open>call_original\<close> is the call
  through the saved pointer. The floats of the quad and of the clear colour are whole
  numbers and are written as integers. The three status queries at the end are the
  only way the API reports a failed compile, a failed link or an incomplete
  framebuffer; the source never calls them, and they are listed so that their absence
  from a trace can be stated.
\<close>

datatype call =
    glDeleteTextures "GLuint list"
  | glDeleteFramebuffers "GLuint list"
  | glDeleteVertexArrays "GLuint list"
  | glCreateShader shader_type
  | glShaderSource GLuint shader_source
  | glCompileShader GLuint
  | glCreateProgram
  | glAttachShader GLuint GLuint
  | glLinkProgram GLuint
  | glUseProgram GLuint
  | glGetUniformLocation GLuint string
  | glUniform1i GLint int
  | glUniform1f GLint real
  | glGenVertexArrays
  | glBindVertexArray GLuint
  | glGenBuffers
  | glBindBuffer buffer_target GLuint
  | glBufferData buffer_target nat buffer_data
  | glEnableVertexAttribArray nat
  | glVertexAttribPointer nat nat nat nat
  | glGenTextures
  | glBindTexture GLuint
  | glTexImage2D int int
  | glTexParameteri tex_pname tex_param
  | glGenFramebuffers
  | glBindFramebuffer fb_target GLuint
  | glFramebufferTexture2D GLuint
  | glClearColor int int int int
  | glClear
  | glDisable capability
  | glBlitFramebuffer int int int int int int int int
  | glViewport int int int int
  | glActiveTexture nat
  | glDrawElements nat
  | glGetFramebufferBinding
  | eglQuerySurface EGLDisplay EGLSurface surface_attribute
  | call_original fnptr EGLDisplay EGLSurface
  | glGetShaderiv GLuint
  | glGetProgramiv GLuint
  | glCheckFramebufferStatus fb_target

record gl_world =
  trace :: "call list"

definition emit :: "call \<Rightarrow> 'a gl_world_scheme \<Rightarrow> 'a gl_world_scheme" where
  "emit c st = st\<lparr>trace := trace st @ [c]\<rparr>"

definition emits :: "call list \<Rightarrow> 'a gl_world_scheme \<Rightarrow> 'a gl_world_scheme" where
  "emits cs st = st\<lparr>trace := trace st @ cs\<rparr>"

definition ask :: "driver \<Rightarrow> call \<Rightarrow> 'a gl_world_scheme \<Rightarrow> 32 word \<times> 'a gl_world_scheme" where
  "ask drv c st = (drv (length (trace st)), emit c st)"

text \<open>
  Classifying calls: resource creation, resource release, status queries, and the call
  through the saved pointer.
\<close>

fun is_alloc :: "call \<Rightarrow> bool" where
  "is_alloc (glCreateShader t) = True"
| "is_alloc glCreateProgram = True"
| "is_alloc glGenVertexArrays = True"
| "is_alloc glGenBuffers = True"
| "is_alloc (glBufferData t n d) = True"
| "is_alloc glGenTextures = True"
| "is_alloc (glTexImage2D w h) = True"
| "is_alloc glGenFramebuffers = True"
| "is_alloc c = False"

fun is_release :: "call \<Rightarrow> bool" where
  "is_release (glDeleteTextures ns) = True"
| "is_release (glDeleteFramebuffers ns) = True"
| "is_release (glDeleteVertexArrays ns) = True"
| "is_release c = False"

fun is_status_query :: "call \<Rightarrow> bool" where
  "is_status_query (glGetShaderiv x) = True"
| "is_status_query (glGetProgramiv p) = True"
| "is_status_query (glCheckFramebufferStatus t) = True"
| "is_status_query c = False"

fun is_forward :: "call \<Rightarrow> bool" where
  "is_forward (call_original f d s) = True"
| "is_forward c = False"

definition alloc_count :: "'a gl_world_scheme \<Rightarrow> nat" where
  "alloc_count st = length (filter is_alloc (trace st))"

section \<open>Internal resolution: \<^verbatim>\<open>(int)(w*SCALE)\<close>\<close>

text \<open>
  \<^verbatim>\<open>SCALE\<close> is the \<^verbatim>\<open>float\<close> 0.5, so \<^verbatim>\<open>w*SCALE\<close> converts the 32-bit integer \<^verbatim>\<open>w\<close>
  to single precision (24 significant bits, round to nearest, ties to even), halves it
  (exact in binary floating point) and the cast truncates towards zero. The value of
  \<^verbatim>\<open>(float)w\<close> is an integer, computed here in integer arithmetic.
\<close>

definition SCALE :: real where
  "SCALE = 0.5"

fun bitlen :: "nat \<Rightarrow> nat" where
  "bitlen n = (if n = 0 then 0 else Suc (bitlen (n div 2)))"

definition float_of_int :: "int \<Rightarrow> int" where
  "float_of_int w =
     (let a = nat \<bar>w\<bar>; e = bitlen a - 24; q = a div 2 ^ e; r = a mod 2 ^ e;
          q' = (if 2 * r > 2 ^ e \<or> (2 * r = 2 ^ e \<and> odd q) then q + 1 else q)
      in sgn w * int (q' * 2 ^ e))"

definition trunc_half :: "int \<Rightarrow> int" where
  "trunc_half x = sgn x * (\<bar>x\<bar> div 2)"

definition scaled :: "int \<Rightarrow> int" where
  "scaled w = trunc_half (float_of_int w)"

declare bitlen.simps [simp del]

section \<open>The render engine of \<^verbatim>\<open>main.cpp\<close>\<close>

text \<open>
  The file-scope variables of the engine, together with the trace. The two-element
  arrays \<^verbatim>\<open>histTex[2]\<close> and \<^verbatim>\<open>histFBO[2]\<close> are pairs; \<open>at2\<close> reads one with a C
  \<^verbatim>\<open>int\<close> index and has no value outside \<open>{0, 1}\<close>, where the C++ read is undefined.
  \<^verbatim>\<open>orig\<close> is the pointer the hook provider fills in; 0 is the null pointer.
\<close>

record engine = gl_world +
  rawTex :: GLuint
  rawFBO :: GLuint
  histTex :: "GLuint \<times> GLuint"
  histFBO :: "GLuint \<times> GLuint"
  vao :: GLuint
  progBlur :: GLuint
  progDraw :: GLuint
  ping :: int
  iW :: int
  iH :: int
  sW :: int
  sH :: int
  orig :: fnptr

datatype fault = OutOfBounds | NullCall

definition at2 :: "'a \<times> 'a \<Rightarrow> int \<Rightarrow> 'a option" where
  "at2 arr i = (if i = 0 then Some (fst arr) else if i = 1 then Some (snd arr) else None)"

definition init_engine :: engine where
  "init_engine =
     \<lparr>trace = [], rawTex = 0, rawFBO = 0, histTex = (0, 0), histFBO = (0, 0), vao = 0,
      progBlur = 0, progDraw = 0, ping = 0, iW = 0, iH = 0, sW = 0, sH = 0, orig = 0\<rparr>"

text \<open>\<^verbatim>\<open>initGL\<close>, block by block in the order of the source.\<close>

definition cleanup :: "engine \<Rightarrow> engine" where
  "cleanup st =
     (if rawTex st \<noteq> 0
      then emits [glDeleteTextures [rawTex st], glDeleteFramebuffers [rawFBO st],
                  glDeleteTextures [fst (histTex st), snd (histTex st)],
                  glDeleteFramebuffers [fst (histFBO st), snd (histFBO st)],
                  glDeleteVertexArrays [vao st]] st
      else st)"

text \<open>The lambda \<^verbatim>\<open>c\<close>: create, source, compile; the compile status is not read.\<close>

definition c_shader ::
  "driver \<Rightarrow> shader_type \<Rightarrow> shader_source \<Rightarrow> 'a gl_world_scheme \<Rightarrow> GLuint \<times> 'a gl_world_scheme" where
  "c_shader drv t s st =
     (let (x, st1) = ask drv (glCreateShader t) st
      in (x, emits [glShaderSource x s, glCompileShader x] st1))"

definition programs :: "driver \<Rightarrow> engine \<Rightarrow> engine" where
  "programs drv st0 =
     (let (vs, st1) = c_shader drv GL_VERTEX_SHADER vert st0;
          (fs1, st2) = c_shader drv GL_FRAGMENT_SHADER frag_blur st1;
          (fs2, st3) = c_shader drv GL_FRAGMENT_SHADER frag_draw st2;
          (pb, st4) = ask drv glCreateProgram st3;
          st5 = emits [glAttachShader pb vs, glAttachShader pb fs1, glLinkProgram pb,
                       glUseProgram pb] (st4\<lparr>progBlur := pb\<rparr>);
          (lc, st6) = ask drv (glGetUniformLocation pb ''c'') st5;
          st7 = emit (glUniform1i lc 0) st6;
          (lh, st8) = ask drv (glGetUniformLocation pb ''h'') st7;
          st9 = emit (glUniform1i lh 1) st8;
          (pd, st10) = ask drv glCreateProgram st9
      in emits [glAttachShader pd vs, glAttachShader pd fs2, glLinkProgram pd]
           (st10\<lparr>progDraw := pd\<rparr>))"

definition quad_d :: "int list" where
  "quad_d = [-1, 1, 0, 1,  -1, -1, 0, 0,  1, -1, 1, 0,  1, 1, 1, 1]"

definition quad_i :: "nat list" where
  "quad_i = [0, 1, 2,  0, 2, 3]"

definition geometry :: "driver \<Rightarrow> engine \<Rightarrow> engine" where
  "geometry drv st0 =
     (let (va, st1) = ask drv glGenVertexArrays st0;
          st2 = emit (glBindVertexArray va) (st1\<lparr>vao := va\<rparr>);
          (vb, st3) = ask drv glGenBuffers st2;
          st4 = emits [glBindBuffer GL_ARRAY_BUFFER vb,
                       glBufferData GL_ARRAY_BUFFER 64 (vertex_floats quad_d)] st3;
          (ib, st5) = ask drv glGenBuffers st4
      in emits [glBindBuffer GL_ELEMENT_ARRAY_BUFFER ib,
                glBufferData GL_ELEMENT_ARRAY_BUFFER 12 (index_shorts quad_i),
                glEnableVertexAttribArray 0, glVertexAttribPointer 0 2 16 0,
                glEnableVertexAttribArray 1, glVertexAttribPointer 1 2 16 8] st5)"

text \<open>
  The lambda \<^verbatim>\<open>t\<close>: one texture of the given size with its framebuffer object. It
  returns the two names the source writes through its reference parameters.
\<close>

definition t_target ::
  "driver \<Rightarrow> int \<Rightarrow> int \<Rightarrow> 'a gl_world_scheme \<Rightarrow> (GLuint \<times> GLuint) \<times> 'a gl_world_scheme" where
  "t_target drv tw th st0 =
     (let (tx, st1) = ask drv glGenTextures st0;
          st2 = emits [glBindTexture tx, glTexImage2D tw th,
                       glTexParameteri GL_TEXTURE_MIN_FILTER GL_LINEAR,
                       glTexParameteri GL_TEXTURE_MAG_FILTER GL_LINEAR,
                       glTexParameteri GL_TEXTURE_WRAP_S GL_CLAMP_TO_EDGE,
                       glTexParameteri GL_TEXTURE_WRAP_T GL_CLAMP_TO_EDGE] st1;
          (fb, st3) = ask drv glGenFramebuffers st2
      in ((tx, fb), emits [glBindFramebuffer GL_FRAMEBUFFER fb, glFramebufferTexture2D tx] st3))"

definition textures :: "driver \<Rightarrow> engine \<Rightarrow> engine" where
  "textures drv st0 =
     (let ((rt, rf), st1) = t_target drv (iW st0) (iH st0) st0;
          ((t0, f0), st2) = t_target drv (iW st0) (iH st0) st1;
          ((t1, f1), st3) = t_target drv (iW st0) (iH st0) st2
      in emits [glBindFramebuffer GL_FRAMEBUFFER f0, glClearColor 0 0 0 1, glClear,
                glBindFramebuffer GL_FRAMEBUFFER f1, glClearColor 0 0 0 1, glClear]
           (st3\<lparr>rawTex := rt, rawFBO := rf, histTex := (t0, t1), histFBO := (f0, f1)\<rparr>))"

definition initGL :: "driver \<Rightarrow> int \<Rightarrow> int \<Rightarrow> engine \<Rightarrow> engine" where
  "initGL drv w h st0 =
     (let st1 = cleanup st0;
          st2 = st1\<lparr>iW := scaled w, iH := scaled h\<rparr>;
          st3 = programs drv st2;
          st4 = geometry drv st3;
          st5 = textures drv st4
      in st5\<lparr>sW := w, sH := h\<rparr>)"

text \<open>
  \<^verbatim>\<open>render\<close>, in three parts: the size check of its first line, the locals
  \<^verbatim>\<open>cur\<close> and \<^verbatim>\<open>pre\<close>, and the calls of the frame (\<open>passes\<close>, which takes the two
  locals as arguments). None of the calls hands a value back. The reads
  \<^verbatim>\<open>histFBO[cur]\<close>, \<^verbatim>\<open>histTex[pre]\<close> and \<^verbatim>\<open>histTex[cur]\<close> go through \<open>at2\<close>; an index
  outside the arrays is the fault \<open>OutOfBounds\<close>.
\<close>

definition size_check :: "driver \<Rightarrow> int \<Rightarrow> int \<Rightarrow> engine \<Rightarrow> engine" where
  "size_check drv w h st =
     (if w \<noteq> sW st \<or> h \<noteq> sH st \<or> rawTex st = 0 then initGL drv w h st else st)"

definition passes :: "int \<Rightarrow> int \<Rightarrow> int \<Rightarrow> int \<Rightarrow> engine \<Rightarrow> fault + engine" where
  "passes w h cur pre st =
     (case (at2 (histFBO st) cur, at2 (histTex st) pre, at2 (histTex st) cur) of
        (Some fboCur, Some texPre, Some texCur) \<Rightarrow>
          Inr ((emits
            [glDisable GL_SCISSOR_TEST, glDisable GL_DEPTH_TEST, glDisable GL_BLEND,
             glBindFramebuffer GL_READ_FRAMEBUFFER 0,
             glBindFramebuffer GL_DRAW_FRAMEBUFFER (rawFBO st),
             glBlitFramebuffer 0 0 w h 0 0 (iW st) (iH st),
             glBindFramebuffer GL_FRAMEBUFFER fboCur, glViewport 0 0 (iW st) (iH st),
             glBindVertexArray (vao st),
             glUseProgram (progBlur st),
             glActiveTexture 0, glBindTexture (rawTex st),
             glActiveTexture 1, glBindTexture texPre,
             glDrawElements 6,
             glBindFramebuffer GL_FRAMEBUFFER 0, glViewport 0 0 w h,
             glUseProgram (progDraw st),
             glActiveTexture 0, glBindTexture texCur,
             glDrawElements 6] st)\<lparr>ping := pre\<rparr>)
      | _ \<Rightarrow> Inl OutOfBounds)"

definition render :: "driver \<Rightarrow> int \<Rightarrow> int \<Rightarrow> engine \<Rightarrow> fault + engine" where
  "render drv w h st0 =
     (let st = size_check drv w h st0;
          cur = ping st; pre = 1 - ping st
      in passes w h cur pre st)"

text \<open>
  \<^verbatim>\<open>hook\<close>. The two queries write \<^verbatim>\<open>w\<close> and \<^verbatim>\<open>h\<close> (\<^verbatim>\<open>EGLint\<close>, 32 bits, signed); the
  reply of a query is what its local holds after the call, whether the query succeeded
  or left the local as it was. The call through \<^verbatim>\<open>orig\<close> is not guarded in this
  variant: a null pointer is the fault \<open>NullCall\<close>.
\<close>

definition hook :: "driver \<Rightarrow> EGLDisplay \<Rightarrow> EGLSurface \<Rightarrow> engine \<Rightarrow> fault + (EGLBoolean \<times> engine)" where
  "hook drv d s st0 =
     (let (wv, st1) = ask drv (eglQuerySurface d s EGL_WIDTH) st0;
          (hv, st2) = ask drv (eglQuerySurface d s EGL_HEIGHT) st1;
          w = sint wv; h = sint hv
      in case (if w > 100 then render drv w h st2 else Inr st2) of
           Inl e \<Rightarrow> Inl e
         | Inr st3 \<Rightarrow>
             if orig st3 = 0 then Inl NullCall
             else Inr (ask drv (call_original (orig st3) d s) st3))"

text \<open>A run of the engine: the host presents one frame per listed surface size.\<close>

fun run :: "driver \<Rightarrow> (int \<times> int) list \<Rightarrow> engine \<Rightarrow> fault + engine" where
  "run drv [] st = Inr st"
| "run drv ((w, h) # fs) st =
     (case render drv w h st of Inl e \<Rightarrow> Inl e | Inr st' \<Rightarrow> run drv fs st')"

text \<open>
  The states the engine can be in: the initial one, with whatever pointer the hook
  provider stored in \<^verbatim>\<open>orig\<close>, and every state a call of \<^verbatim>\<open>render\<close> or \<^verbatim>\<open>hook\<close>
  leaves behind.
\<close>

inductive reachable :: "engine \<Rightarrow> bool" where
  start: "reachable (init_engine\<lparr>orig := a\<rparr>)"
| frame: "reachable st \<Longrightarrow> render drv w h st = Inr st' \<Longrightarrow> reachable st'"
| present: "reachable st \<Longrightarrow> hook drv d s st = Inr (r, st') \<Longrightarrow> reachable st'"

text \<open>The calls a step appended to the trace.\<close>

definition new_calls :: "'a gl_world_scheme \<Rightarrow> 'b gl_world_scheme \<Rightarrow> call list" where
  "new_calls st st' = drop (length (trace st)) (trace st')"

text \<open>The calls of the lambda \<^verbatim>\<open>t\<close> that create a target: names and storage.\<close>

fun is_target_alloc :: "call \<Rightarrow> bool" where
  "is_target_alloc glGenTextures = True"
| "is_target_alloc (glTexImage2D w h) = True"
| "is_target_alloc glGenFramebuffers = True"
| "is_target_alloc c = False"

text \<open>
  Four drivers for concrete runs: one that hands out a fresh non-zero value at every
  request, one whose every request fails (0), one that works for the first 91 calls
  (the first frame with its initialization) and fails from then on, and one that
  answers 1920 to everything (a surface 1920 wide).
\<close>

definition seq_driver :: driver where
  "seq_driver n = of_nat (Suc n)"

definition failing_driver :: driver where
  "failing_driver n = 0"

definition flaky_driver :: driver where
  "flaky_driver n = (if n < 91 then of_nat (Suc n) else 0)"

definition wide_driver :: driver where
  "wide_driver n = 1920"

section \<open>The simple-blend variant\<close>

text \<open>
  The last variant of the repository (\<^verbatim>\<open>initResources\<close>, \<^verbatim>\<open>render_effect\<close>,
  \<^verbatim>\<open>hook_swap\<close>) keeps a first-frame flag and guards the call through \<^verbatim>\<open>orig_swap\<close>.
  Its variables \<^verbatim>\<open>rawFBO\<close> and \<^verbatim>\<open>vao\<close> carry a prime here, the names being taken.
\<close>

record blend_engine = gl_world +
  rawTexture :: GLuint
  rawFBO' :: GLuint
  historyTextures :: "GLuint \<times> GLuint"
  historyFBOs :: "GLuint \<times> GLuint"
  vao' :: GLuint
  vbo :: GLuint
  ibo :: GLuint
  blendProgram :: GLuint
  drawProgram :: GLuint
  locCurrent :: GLint
  locHistory :: GLint
  locFactor :: GLint
  locTexture :: GLint
  pingPongIndex :: int
  isFirstFrame :: bool
  savedWidth :: int
  savedHeight :: int
  internalW :: int
  internalH :: int
  orig_swap :: fnptr

text \<open>\<^verbatim>\<open>BLUR_STRENGTH\<close> is the \<^verbatim>\<open>float\<close> \<^verbatim>\<open>0.60f\<close>: the single-precision number nearest to 0.6.\<close>

definition BLUR_STRENGTH :: real where
  "BLUR_STRENGTH = 5033165 / 8388608"

definition EGL_FALSE :: EGLBoolean where
  "EGL_FALSE = 0"

definition init_blend_engine :: blend_engine where
  "init_blend_engine =
     \<lparr>trace = [], rawTexture = 0, rawFBO' = 0, historyTextures = (0, 0),
      historyFBOs = (0, 0), vao' = 0, vbo = 0, ibo = 0, blendProgram = 0, drawProgram = 0,
      locCurrent = - 1, locHistory = - 1, locFactor = - 1, locTexture = - 1,
      pingPongIndex = 0, isFirstFrame = True, savedWidth = 0, savedHeight = 0,
      internalW = 0, internalH = 0, orig_swap = 0\<rparr>"

definition release_old :: "blend_engine \<Rightarrow> blend_engine" where
  "release_old st =
     (if rawTexture st \<noteq> 0
      then emits [glDeleteTextures [rawTexture st], glDeleteFramebuffers [rawFBO' st],
                  glDeleteTextures [fst (historyTextures st), snd (historyTextures st)],
                  glDeleteFramebuffers [fst (historyFBOs st), snd (historyFBOs st)],
                  glDeleteVertexArrays [vao' st]] st
      else st)"

definition link_programs :: "driver \<Rightarrow> blend_engine \<Rightarrow> blend_engine" where
  "link_programs drv st0 =
     (let (vs, st1) = c_shader drv GL_VERTEX_SHADER vertexShaderSource st0;
          (fsBlend, st2) = c_shader drv GL_FRAGMENT_SHADER smartFragmentShaderSource st1;
          (fsDraw, st3) = c_shader drv GL_FRAGMENT_SHADER drawFragmentShaderSource st2;
          (bp, st4) = ask drv glCreateProgram st3;
          st5 = emits [glAttachShader bp vs, glAttachShader bp fsBlend, glLinkProgram bp]
                  (st4\<lparr>blendProgram := bp\<rparr>);
          (lc, st6) = ask drv (glGetUniformLocation bp ''uCurrentFrame'') st5;
          (lh, st7) = ask drv (glGetUniformLocation bp ''uHistoryFrame'') st6;
          (lf, st8) = ask drv (glGetUniformLocation bp ''uBlendFactor'') st7;
          (dp, st9) = ask drv glCreateProgram st8;
          st10 = emits [glAttachShader dp vs, glAttachShader dp fsDraw, glLinkProgram dp]
                   (st9\<lparr>locCurrent := lc, locHistory := lh, locFactor := lf, drawProgram := dp\<rparr>);
          (lt, st11) = ask drv (glGetUniformLocation dp ''uTexture'') st10
      in st11\<lparr>locTexture := lt\<rparr>)"

definition quad :: "driver \<Rightarrow> blend_engine \<Rightarrow> blend_engine" where
  "quad drv st0 =
     (let (va, st1) = ask drv glGenVertexArrays st0;
          st2 = emit (glBindVertexArray va) (st1\<lparr>vao' := va\<rparr>);
          (vb, st3) = ask drv glGenBuffers st2;
          st4 = emits [glBindBuffer GL_ARRAY_BUFFER vb,
                       glBufferData GL_ARRAY_BUFFER 64 (vertex_floats quad_d)]
                  (st3\<lparr>vbo := vb\<rparr>);
          (ib, st5) = ask drv glGenBuffers st4
      in emits [glBindBuffer GL_ELEMENT_ARRAY_BUFFER ib,
                glBufferData GL_ELEMENT_ARRAY_BUFFER 12 (index_shorts quad_i),
                glEnableVertexAttribArray 0, glVertexAttribPointer 0 2 16 0,
                glEnableVertexAttribArray 1, glVertexAttribPointer 1 2 16 8,
                glBindVertexArray 0] (st5\<lparr>ibo := ib\<rparr>))"

definition targets :: "driver \<Rightarrow> blend_engine \<Rightarrow> blend_engine" where
  "targets drv st0 =
     (let ((rt, rf), st1) = t_target drv (internalW st0) (internalH st0) st0;
          ((t0, f0), st2) = t_target drv (internalW st0) (internalH st0) st1;
          st3 = emits [glClearColor 0 0 0 0, glClear] st2;
          ((t1, f1), st4) = t_target drv (internalW st0) (internalH st0) st3;
          st5 = emits [glClearColor 0 0 0 0, glClear] st4
      in st5\<lparr>rawTexture := rt, rawFBO' := rf, historyTextures := (t0, t1),
              historyFBOs := (f0, f1)\<rparr>)"

definition initResources :: "driver \<Rightarrow> int \<Rightarrow> int \<Rightarrow> blend_engine \<Rightarrow> blend_engine" where
  "initResources drv width height st0 =
     (let st1 = release_old st0;
          st2 = st1\<lparr>internalW := scaled width, internalH := scaled height\<rparr>;
          st3 = link_programs drv st2;
          st4 = quad drv st3;
          st5 = targets drv st4
      in st5\<lparr>savedWidth := width, savedHeight := height, isFirstFrame := True\<rparr>)"

definition check_size :: "driver \<Rightarrow> int \<Rightarrow> int \<Rightarrow> blend_engine \<Rightarrow> blend_engine" where
  "check_size drv width height st =
     (if width \<noteq> savedWidth st \<or> height \<noteq> savedHeight st \<or> rawTexture st = 0
      then initResources drv width height st else st)"

text \<open>
  The accumulation step of \<^verbatim>\<open>render_effect\<close>, with its two branches. The first-frame
  branch reads \<^verbatim>\<open>historyFBOs[curr]\<close> only; the other one reads
  \<^verbatim>\<open>historyTextures[prev]\<close> too. The locals \<^verbatim>\<open>curr\<close> and \<^verbatim>\<open>prev\<close> carry a
  prime.
\<close>

definition apply_blur :: "int \<Rightarrow> int \<Rightarrow> blend_engine \<Rightarrow> fault + blend_engine" where
  "apply_blur curr' prev' st =
     (if isFirstFrame st then
        (case at2 (historyFBOs st) curr' of
           Some fboCurr \<Rightarrow>
             Inr ((emits
               [glBindFramebuffer GL_FRAMEBUFFER fboCurr,
                glUseProgram (drawProgram st),
                glActiveTexture 0, glBindTexture (rawTexture st),
                glUniform1i (locTexture st) 0,
                glDrawElements 6] st)\<lparr>isFirstFrame := False\<rparr>)
         | None \<Rightarrow> Inl OutOfBounds)
      else
        (case (at2 (historyFBOs st) curr', at2 (historyTextures st) prev') of
           (Some fboCurr, Some texPrev) \<Rightarrow>
             Inr (emits
               [glBindFramebuffer GL_FRAMEBUFFER fboCurr,
                glUseProgram (blendProgram st),
                glActiveTexture 0, glBindTexture (rawTexture st),
                glUniform1i (locCurrent st) 0,
                glActiveTexture 1, glBindTexture texPrev,
                glUniform1i (locHistory st) 1,
                glUniform1f (locFactor st) BLUR_STRENGTH,
                glDrawElements 6] st)
         | _ \<Rightarrow> Inl OutOfBounds))"

definition render_effect :: "driver \<Rightarrow> int \<Rightarrow> int \<Rightarrow> blend_engine \<Rightarrow> fault + blend_engine" where
  "render_effect drv width height st0 =
     (let st1 = check_size drv width height st0;
          st2 = emits
            [glGetFramebufferBinding,
             glDisable GL_SCISSOR_TEST, glDisable GL_DEPTH_TEST, glDisable GL_BLEND,
             glBindFramebuffer GL_READ_FRAMEBUFFER 0,
             glBindFramebuffer GL_DRAW_FRAMEBUFFER (rawFBO' st1),
             glBlitFramebuffer 0 0 width height 0 0 (internalW st1) (internalH st1)] st1;
          curr' = pingPongIndex st2; prev' = 1 - pingPongIndex st2;
          st3 = emits [glBindVertexArray (vao' st2),
                       glViewport 0 0 (internalW st2) (internalH st2)] st2
      in case apply_blur curr' prev' st3 of
           Inl e \<Rightarrow> Inl e
         | Inr st4 \<Rightarrow>
             (case at2 (historyTextures st4) curr' of
                None \<Rightarrow> Inl OutOfBounds
              | Some texCurr \<Rightarrow>
                  Inr ((emits
                    [glBindFramebuffer GL_FRAMEBUFFER 0, glViewport 0 0 width height,
                     glUseProgram (drawProgram st4),
                     glActiveTexture 0, glBindTexture texCurr,
                     glUniform1i (locTexture st4) 0,
                     glDrawElements 6,
                     glBindVertexArray 0] st4)\<lparr>pingPongIndex := prev'\<rparr>)))"

definition hook_swap ::
  "driver \<Rightarrow> EGLDisplay \<Rightarrow> EGLSurface \<Rightarrow> blend_engine \<Rightarrow> fault + (EGLBoolean \<times> blend_engine)" where
  "hook_swap drv dpy surf st0 =
     (if orig_swap st0 \<noteq> 0 then
        (let (wv, st1) = ask drv (eglQuerySurface dpy surf EGL_WIDTH) st0;
             (hv, st2) = ask drv (eglQuerySurface dpy surf EGL_HEIGHT) st1;
             w = sint wv; h = sint hv
         in case (if w > 100 then render_effect drv w h st2 else Inr st2) of
              Inl e \<Rightarrow> Inl e
            | Inr st3 \<Rightarrow> Inr (ask drv (call_original (orig_swap st3) dpy surf) st3))
      else Inr (EGL_FALSE, st0))"

inductive blend_reachable :: "blend_engine \<Rightarrow> bool" where
  blend_start: "blend_reachable (init_blend_engine\<lparr>orig_swap := a\<rparr>)"
| blend_frame: "blend_reachable st \<Longrightarrow> render_effect drv w h st = Inr st' \<Longrightarrow> blend_reachable st'"
| blend_present: "blend_reachable st \<Longrightarrow> hook_swap drv d s st = Inr (r, st') \<Longrightarrow> blend_reachable st'"

text \<open>
  \<open>later_at w h st st'\<close>: the state \<open>st'\<close> is \<open>st\<close> after any number of further calls of
  \<^verbatim>\<open>render_effect\<close>, all with the size \<open>w\<close> by \<open>h\<close>, each under a driver of its own.
\<close>

inductive later_at :: "int \<Rightarrow> int \<Rightarrow> blend_engine \<Rightarrow> blend_engine \<Rightarrow> bool"
  for w h st where
  later_now: "later_at w h st st"
| later_frame: "later_at w h st st' \<Longrightarrow> render_effect drv w h st' = Inr st'' \<Longrightarrow> later_at w h st st''"

text \<open>
  A driver for concrete runs of this variant: it hands out a fresh non-zero value at
  every request but one. An initialization (68 calls, the name of the raw texture being
  requested by call 34) followed by a first frame (23 calls) is 91 calls long; under
  this driver \<^verbatim>\<open>glGenTextures\<close> leaves the name of the raw texture at 0 every time.
\<close>

definition textureless_driver :: driver where
  "textureless_driver n = (if n mod 91 = 34 then 0 else of_nat (Suc n))"

section \<open>Single-precision arithmetic\<close>

text \<open>
  The shaders compute in floating point. \<open>fl\<close> rounds a real number to 24 significant
  bits, to nearest with ties to even: the IEEE single-precision value of the number,
  for as long as the exponent stays in range. The exponent is not bounded here:
  overflow and underflow, which in single precision concern magnitudes above \<open>2^127\<close>
  and below \<open>2^-126\<close>, are not modelled. An operation of the shader is the exact
  operation followed by \<open>fl\<close>. This is the
  arithmetic of a GPU that runs \<^verbatim>\<open>lowp\<close> and \<^verbatim>\<open>mediump\<close> at full precision, which the
  shading language permits; a narrower format rounds more coarsely.
\<close>

definition rne :: "real \<Rightarrow> int" where
  "rne y = (let n = \<lfloor>y\<rfloor>
            in if y - of_int n < 1 / 2 \<or> (y - of_int n = 1 / 2 \<and> even n) then n else n + 1)"

definition fl :: "real \<Rightarrow> real" where
  "fl x = (if x = 0 then 0
           else let e = \<lfloor>log 2 \<bar>x\<bar>\<rfloor> - 23
                in of_int (rne (x * 2 powr (- of_int e))) * 2 powr (of_int e))"






section \<open>The sharpening step of \<^verbatim>\<open>frag_draw\<close> in \<^verbatim>\<open>main.cpp\<close>\<close>













section \<open>Concrete runs\<close>

text \<open>
  States of concrete runs: each engine once the hook provider has stored a pointer,
  and the states that frames leave behind under the drivers above.
\<close>

definition installed :: engine where
  "installed = init_engine\<lparr>orig := 1\<rparr>"

definition after_first :: engine where
  "after_first = projr (render seq_driver 200 200 installed)"

definition after_failed :: engine where
  "after_failed = projr (render failing_driver 1920 1080 installed)"

definition flaky_first :: engine where
  "flaky_first = projr (render flaky_driver 200 200 installed)"

definition flaky_second :: engine where
  "flaky_second = projr (render flaky_driver 300 300 flaky_first)"

definition blend_installed :: blend_engine where
  "blend_installed = init_blend_engine\<lparr>orig_swap := 1\<rparr>"

definition blend_first :: blend_engine where
  "blend_first = projr (render_effect seq_driver 200 200 blend_installed)"

definition blend_second :: blend_engine where
  "blend_second = projr (render_effect seq_driver 200 200 blend_first)"

definition blend_third :: blend_engine where
  "blend_third = projr (render_effect seq_driver 200 200 blend_second)"

definition lost_first :: blend_engine where
  "lost_first = projr (render_effect textureless_driver 200 200 blend_installed)"

definition lost_second :: blend_engine where
  "lost_second = projr (render_effect textureless_driver 200 200 lost_first)"

section \<open>Basic facts about the engine\<close>

lemma bitlen_le: "n < 2 ^ k \<Longrightarrow> bitlen n \<le> k"
proof (induction k arbitrary: n)
  case 0
  then show ?case by (simp add: bitlen.simps)
next
  case (Suc k)
  have "n div 2 < 2 ^ k" using Suc.prems by auto
  then have "bitlen (n div 2) \<le> k" by (rule Suc.IH)
  then show ?case by (subst bitlen.simps) simp
qed

lemma float_of_int_exact: "\<bar>w\<bar> < 2 ^ 24 \<Longrightarrow> float_of_int w = w"
proof -
  assume a: "\<bar>w\<bar> < 2 ^ 24"
  then have "nat \<bar>w\<bar> < 2 ^ 24" by (simp add: nat_less_iff)
  then have "bitlen (nat \<bar>w\<bar>) - 24 = 0" using bitlen_le by fastforce
  then show ?thesis by (simp add: float_of_int_def Let_def mult_sgn_abs)
qed

lemma scaled_exact: "0 \<le> w \<Longrightarrow> w < 2 ^ 24 \<Longrightarrow> scaled w = w div 2"
  by (simp add: scaled_def float_of_int_exact trunc_half_def sgn_if)

lemma floor_half: "\<lfloor>real_of_int w * SCALE\<rfloor> = w div 2"
proof -
  have "real_of_int w * SCALE = real_of_int w / real_of_int 2" by (simp add: SCALE_def)
  then show ?thesis by (simp only: floor_divide_of_int_eq)
qed

lemmas world_defs = ask_def emit_def emits_def Let_def split_def

lemmas initGL_defs =
  initGL_def textures_def t_target_def geometry_def programs_def c_shader_def cleanup_def

lemma initGL_fields:
  "ping (initGL drv w h st) = ping st"
  "orig (initGL drv w h st) = orig st"
  "sW (initGL drv w h st) = w"
  "sH (initGL drv w h st) = h"
  "iW (initGL drv w h st) = scaled w"
  "iH (initGL drv w h st) = scaled h"
  by (simp_all add: initGL_defs world_defs)

lemma initGL_trace:
  "trace (initGL drv w h st) = trace st @ new_calls st (initGL drv w h st)"
  by (simp add: initGL_defs world_defs new_calls_def)

lemma initGL_status:
  "filter is_status_query (new_calls st (initGL drv w h st)) = []"
  by (simp add: initGL_defs world_defs new_calls_def)

lemma initGL_release:
  "filter is_release (new_calls st (initGL drv w h st)) =
     (if rawTex st \<noteq> 0
      then [glDeleteTextures [rawTex st], glDeleteFramebuffers [rawFBO st],
            glDeleteTextures [fst (histTex st), snd (histTex st)],
            glDeleteFramebuffers [fst (histFBO st), snd (histFBO st)],
            glDeleteVertexArrays [vao st]]
      else [])"
  by (simp add: initGL_defs world_defs new_calls_def)

lemma initGL_release_first:
  "take (length (filter is_release (new_calls st (initGL drv w h st)))) (new_calls st (initGL drv w h st))
    = filter is_release (new_calls st (initGL drv w h st))"
  by (simp add: initGL_defs world_defs new_calls_def)

lemma initGL_target_alloc:
  "filter is_target_alloc (new_calls st (initGL drv w h st)) =
     [glGenTextures, glTexImage2D (scaled w) (scaled h), glGenFramebuffers,
      glGenTextures, glTexImage2D (scaled w) (scaled h), glGenFramebuffers,
      glGenTextures, glTexImage2D (scaled w) (scaled h), glGenFramebuffers]"
  by (simp add: initGL_defs world_defs new_calls_def)

lemma initGL_programs:
  "progBlur (initGL drv w h st) = drv (length (trace (cleanup st)) + 9)"
  "progDraw (initGL drv w h st) = drv (length (trace (cleanup st)) + 18)"
  by (simp_all add: initGL_defs world_defs eval_nat_numeral)

lemma initGL_rawTex:
  "rawTex (initGL drv w h st) = drv (length (trace (cleanup st)) + 34)"
  by (simp_all add: initGL_defs world_defs eval_nat_numeral)

lemma at2_Some: "i = 0 \<or> i = 1 \<Longrightarrow> at2 arr i = Some (if i = 0 then fst arr else snd arr)"
  by (auto simp: at2_def)

lemma at2_None: "\<not> (i = 0 \<or> i = 1) \<Longrightarrow> at2 arr i = None"
  by (auto simp: at2_def)

lemma passes_Inr_iff:
  "(\<exists>st'. passes w h cur pre st = Inr st') \<longleftrightarrow> (cur = 0 \<or> cur = 1) \<and> (pre = 0 \<or> pre = 1)"
  by (auto simp: passes_def at2_def split: option.splits)

lemma passes_fields:
  assumes "passes w h cur pre st = Inr st'"
  shows "ping st' = pre" "orig st' = orig st" "sW st' = sW st" "sH st' = sH st"
    "rawTex st' = rawTex st" "iW st' = iW st" "iH st' = iH st"
    "histTex st' = histTex st" "histFBO st' = histFBO st"
    "progBlur st' = progBlur st" "progDraw st' = progDraw st"
  using assms by (auto simp: passes_def world_defs split: option.splits)

lemma passes_calls:
  assumes "passes w h cur pre st = Inr st'"
  shows "new_calls st st' =
      [glDisable GL_SCISSOR_TEST, glDisable GL_DEPTH_TEST, glDisable GL_BLEND,
       glBindFramebuffer GL_READ_FRAMEBUFFER 0,
       glBindFramebuffer GL_DRAW_FRAMEBUFFER (rawFBO st),
       glBlitFramebuffer 0 0 w h 0 0 (iW st) (iH st),
       glBindFramebuffer GL_FRAMEBUFFER (the (at2 (histFBO st) cur)),
       glViewport 0 0 (iW st) (iH st),
       glBindVertexArray (vao st),
       glUseProgram (progBlur st),
       glActiveTexture 0, glBindTexture (rawTex st),
       glActiveTexture 1, glBindTexture (the (at2 (histTex st) pre)),
       glDrawElements 6,
       glBindFramebuffer GL_FRAMEBUFFER 0, glViewport 0 0 w h,
       glUseProgram (progDraw st),
       glActiveTexture 0, glBindTexture (the (at2 (histTex st) cur)),
       glDrawElements 6]"
  using assms by (auto simp: passes_def world_defs new_calls_def split: option.splits)

lemma passes_trace:
  assumes "passes w h cur pre st = Inr st'"
  shows "trace st' = trace st @ new_calls st st'"
  using assms by (auto simp: passes_def world_defs new_calls_def split: option.splits)


lemma size_check_fields:
  "ping (size_check drv w h st) = ping st"
  "orig (size_check drv w h st) = orig st"
  "sW (size_check drv w h st) = w"
  "sH (size_check drv w h st) = h"
  by (auto simp: size_check_def initGL_fields)

lemma size_check_trace:
  "trace (size_check drv w h st) = trace st @ new_calls st (size_check drv w h st)"
  using initGL_trace [of drv w h st] by (simp add: size_check_def new_calls_def)

lemma size_check_status:
  "filter is_status_query (new_calls st (size_check drv w h st)) = []"
  using initGL_status [of st drv w h] by (simp add: size_check_def new_calls_def)

lemma render_ok:
  assumes "ping st = 0 \<or> ping st = 1"
  shows "\<exists>st'. render drv w h st = Inr st'"
proof -
  have "\<exists>st'. passes w h (ping st) (1 - ping st) (size_check drv w h st) = Inr st'"
    using assms by (subst passes_Inr_iff) auto
  then show ?thesis by (simp add: render_def Let_def size_check_fields)
qed

lemma render_Inr:
  assumes "render drv w h st = Inr st'"
  shows "passes w h (ping st) (1 - ping st) (size_check drv w h st) = Inr st'"
    and "ping st = 0 \<or> ping st = 1"
    and "ping st' = 1 - ping st"
    and "orig st' = orig st"
    and "sW st' = w" and "sH st' = h"
    and "rawTex st' = rawTex (size_check drv w h st)"
proof -
  show p: "passes w h (ping st) (1 - ping st) (size_check drv w h st) = Inr st'"
    using assms by (simp add: render_def Let_def size_check_fields)
  show "ping st = 0 \<or> ping st = 1"
    using p passes_Inr_iff [of w h "ping st" "1 - ping st" "size_check drv w h st"] by blast
  show "ping st' = 1 - ping st" using passes_fields(1) [OF p] .
  show "orig st' = orig st" using passes_fields(2) [OF p] by (simp add: size_check_fields)
  show "sW st' = w" using passes_fields(3) [OF p] by (simp add: size_check_fields)
  show "sH st' = h" using passes_fields(4) [OF p] by (simp add: size_check_fields)
  show "rawTex st' = rawTex (size_check drv w h st)" using passes_fields(5) [OF p] .
qed

lemma new_calls_append: "trace st' = trace st @ cs \<Longrightarrow> new_calls st st' = cs"
  by (simp add: new_calls_def)

lemma render_trace:
  assumes "render drv w h st = Inr st'"
  shows "trace st' = trace st @ new_calls st st'"
    and "new_calls st st' = new_calls st (size_check drv w h st) @ new_calls (size_check drv w h st) st'"
proof -
  let ?s = "size_check drv w h st"
  have p: "passes w h (ping st) (1 - ping st) ?s = Inr st'" using render_Inr(1) [OF assms] .
  have t: "trace st' = trace st @ (new_calls st ?s @ new_calls ?s st')"
    using passes_trace [OF p] size_check_trace [of drv w h st] by simp
  show n: "new_calls st st' = new_calls st ?s @ new_calls ?s st'"
    using new_calls_append [OF t] .
  show "trace st' = trace st @ new_calls st st'" using t n by simp
qed

lemma hook_Inr:
  assumes "hook drv d s st = Inr (r, st')"
  shows "ping st' = ping st \<or> ping st' = 1 - ping st" "ping st' = 1 - ping st \<longrightarrow> (ping st = 0 \<or> ping st = 1)"
  using assms
  by (auto simp: hook_def world_defs split: if_splits sum.splits dest: render_Inr(2,3))

lemma reachable_ping: "reachable st \<Longrightarrow> ping st = 0 \<or> ping st = 1"
proof (induction rule: reachable.induct)
  case (start a)
  show ?case by (simp add: init_engine_def)
next
  case (frame st drv w h st')
  then show ?case using render_Inr(3) [OF frame.hyps(2)] by auto
next
  case (present st drv d s r st')
  then show ?case using hook_Inr [OF present.hyps(2)] by auto
qed

lemma scaled_values:
  "scaled 1 = 0" "scaled 200 = 100" "scaled 300 = 150" "scaled 1920 = 960" "scaled 1080 = 540"
  by (simp_all add: scaled_exact)

lemma bitlen_eq: "2 ^ k \<le> n \<Longrightarrow> n < 2 ^ Suc k \<Longrightarrow> bitlen n = Suc k"
proof (induction k arbitrary: n)
  case 0
  then have "n = 1" by simp
  then show ?case by (simp add: bitlen.simps)
next
  case (Suc k)
  have "2 ^ k \<le> n div 2" "n div 2 < 2 ^ Suc k" using Suc.prems by auto
  then have "bitlen (n div 2) = Suc k" by (rule Suc.IH)
  moreover have "(0::nat) < 2 ^ Suc k" by simp
  then have "0 < n" using Suc.prems(1) by (rule less_le_trans)
  then have "n \<noteq> 0" by simp
  ultimately show ?case by (subst bitlen.simps) simp
qed

lemma scaled_big: "scaled 16777219 = 8388610"
proof -
  have "bitlen 16777219 = Suc 24" by (rule bitlen_eq) simp_all
  then show ?thesis by (simp add: scaled_def float_of_int_def trunc_half_def Let_def)
qed

lemma installed_reachable: "reachable installed"
  unfolding installed_def by (rule reachable.start)

lemma installed_fields: "ping installed = 0" "orig installed = 1" "rawTex installed = 0"
  "trace installed = []"
  by (simp_all add: installed_def init_engine_def)

lemma after_first_render: "render seq_driver 200 200 installed = Inr after_first"
proof -
  obtain st' where "render seq_driver 200 200 installed = Inr st'"
    using render_ok [of installed seq_driver 200 200] installed_fields by auto
  then show ?thesis by (simp add: after_first_def)
qed

lemma after_first_reachable: "reachable after_first"
  using reachable.frame [OF installed_reachable after_first_render] .

lemma after_first_fields:
  "ping after_first = 1" "orig after_first = 1" "sW after_first = 200" "sH after_first = 200"
  "rawTex after_first = 35" "length (trace after_first) = 91"
  "progBlur after_first = 10" "progDraw after_first = 19"
  "rawFBO after_first = 42" "histTex after_first = (45, 55)" "histFBO after_first = (52, 62)"
  "vao after_first = 23"
  by (simp_all add: after_first_def render_def size_check_def passes_def at2_def installed_def
      init_engine_def initGL_defs world_defs seq_driver_def scaled_values)

section \<open>Internal resolution after initialization\<close>

text \<open>
  C4, as the specification states it: for every size with \<open>width > 100\<close>, the internal
  resolution after (re)initialization is \<open>floor(width * 0.5)\<close> by \<open>floor(height * 0.5)\<close>
  and both are at least 1, clamped. \<^verbatim>\<open>initGL\<close> has no clamp: a surface of height 1 gets
  an internal height of 0. And the product is computed in single precision: a width
  that 24 bits cannot hold is rounded before it is halved.
\<close>

theorem internal_resolution_counterexample:
  "\<not> 1 \<le> iH (initGL seq_driver 200 1 init_engine)
   \<and> iW (initGL seq_driver 16777219 1080 init_engine) \<noteq> \<lfloor>real_of_int 16777219 * SCALE\<rfloor>"
  by (simp add: initGL_fields scaled_values scaled_big SCALE_def)

text \<open>
  C4, amended: for every size with \<open>100 < width < 2^24\<close> and \<open>0 \<le> height < 2^24\<close>
  (single precision holds these exactly), after \<^verbatim>\<open>initGL\<close> the internal width is
  \<open>floor(width * SCALE)\<close>, the internal height is \<open>floor(height * SCALE)\<close>, the internal
  width is at least 1, and the internal height is at least 1 exactly when the height
  is at least 2: nothing is clamped.
\<close>

theorem internal_resolution:
  assumes "100 < w" and "w < 2 ^ 24" and "0 \<le> h" and "h < 2 ^ 24"
  shows "iW (initGL drv w h st) = \<lfloor>real_of_int w * SCALE\<rfloor>
       \<and> iH (initGL drv w h st) = \<lfloor>real_of_int h * SCALE\<rfloor>
       \<and> 1 \<le> iW (initGL drv w h st)
       \<and> (1 \<le> iH (initGL drv w h st) \<longleftrightarrow> 2 \<le> h)"
proof -
  have w: "scaled w = w div 2" using assms by (simp add: scaled_exact)
  have h: "scaled h = h div 2" using assms by (simp add: scaled_exact)
  have "1 \<le> w div 2" using assms(1) by linarith
  moreover have "1 \<le> h div 2 \<longleftrightarrow> 2 \<le> h" by linarith
  ultimately show ?thesis by (simp add: initGL_fields floor_half w h)
qed

theorem internal_resolution_witness:
  "(100::int) < 1920 \<and> (1920::int) < 2 ^ 24 \<and> (0::int) \<le> 1080 \<and> (1080::int) < 2 ^ 24
   \<and> iW (initGL seq_driver 1920 1080 init_engine) = 960
   \<and> iH (initGL seq_driver 1920 1080 init_engine) = 540"
  using internal_resolution [of 1920 1080 seq_driver init_engine]
  by (simp add: SCALE_def)

section \<open>The ping index\<close>

text \<open>
  C9: in every reachable state the ping index is 0 or 1. It starts at 0,
  re-initialization does not write it, and a render call replaces it by \<open>1 - ping\<close>; so
  the reads \<^verbatim>\<open>histFBO[cur]\<close>, \<^verbatim>\<open>histTex[pre]\<close> and \<^verbatim>\<open>histTex[cur]\<close> of a frame are in
  bounds (the call has a result, not the fault \<open>OutOfBounds\<close>), and \<^verbatim>\<open>cur\<close> differs from
  \<^verbatim>\<open>pre\<close>.
\<close>

theorem ping_invariant:
  assumes "reachable st"
  shows "ping init_engine = 0
       \<and> (ping st = 0 \<or> ping st = 1)
       \<and> ping (initGL drv w h st) = ping st
       \<and> (\<exists>st'. render drv w h st = Inr st' \<and> ping st' = 1 - ping st)
       \<and> at2 (histFBO (size_check drv w h st)) (ping st) \<noteq> None
       \<and> at2 (histTex (size_check drv w h st)) (1 - ping st) \<noteq> None
       \<and> at2 (histTex (size_check drv w h st)) (ping st) \<noteq> None
       \<and> ping st \<noteq> 1 - ping st"
proof -
  have p: "ping st = 0 \<or> ping st = 1" using assms by (rule reachable_ping)
  obtain st' where r: "render drv w h st = Inr st'" using render_ok [OF p] by blast
  have "ping st' = 1 - ping st" using render_Inr(3) [OF r] .
  with r have "\<exists>st'. render drv w h st = Inr st' \<and> ping st' = 1 - ping st" by blast
  moreover have "ping init_engine = 0" by (simp add: init_engine_def)
  moreover have "at2 (histFBO (size_check drv w h st)) (ping st) \<noteq> None"
    "at2 (histTex (size_check drv w h st)) (1 - ping st) \<noteq> None"
    "at2 (histTex (size_check drv w h st)) (ping st) \<noteq> None"
    using p by (auto simp: at2_def)
  moreover have "ping st \<noteq> 1 - ping st" using p by auto
  ultimately show ?thesis using p by (simp add: initGL_fields)
qed

theorem ping_invariant_witness:
  "reachable after_first
   \<and> ping after_first = 1
   \<and> ping (initGL seq_driver 300 300 after_first) = 1
   \<and> \<not> isl (render seq_driver 300 300 after_first)
   \<and> ping (projr (render seq_driver 300 300 after_first)) = 0"
  using ping_invariant [OF after_first_reachable, of seq_driver 300 300]
  by (auto simp: after_first_reachable after_first_fields)

section \<open>Frames at a stable size\<close>

lemma passes_filters:
  assumes "passes w h cur pre st = Inr st'"
  shows "filter is_alloc (new_calls st st') = []"
    and "filter is_release (new_calls st st') = []"
    and "filter is_status_query (new_calls st st') = []"
    and "filter is_target_alloc (new_calls st st') = []"
  by (simp_all add: passes_calls [OF assms])

lemma run_append:
  "run drv (xs @ ys) st = (case run drv xs st of Inl e \<Rightarrow> Inl e | Inr st' \<Rightarrow> run drv ys st')"
  by (induction xs arbitrary: st) (auto split: sum.splits)

lemma run_replicate_Suc:
  "run drv (replicate (Suc k) (w, h)) st =
     (case run drv (replicate k (w, h)) st of Inl e \<Rightarrow> Inl e | Inr st' \<Rightarrow> render drv w h st')"
proof -
  have "replicate (Suc k) (w, h) = replicate k (w, h) @ [(w, h)]"
    by (simp add: replicate_append_same)
  then have "run drv (replicate (Suc k) (w, h)) st = run drv (replicate k (w, h) @ [(w, h)]) st"
    by (rule arg_cong)
  then show ?thesis by (simp add: run_append split: sum.splits)
qed

lemma parity_flip: "1 - int (k mod 2) = int (Suc k mod 2)"
  by (cases "even k") (simp_all add: mod_Suc even_iff_mod_2_eq_zero odd_iff_mod_2_eq_one)

lemma run_frames:
  assumes "ping st0 = 0"
  shows "\<exists>st. run drv (replicate k (w, h)) st0 = Inr st \<and> ping st = int (k mod 2)"
proof (induction k)
  case 0
  show ?case using assms by simp
next
  case (Suc k)
  then obtain st where st: "run drv (replicate k (w, h)) st0 = Inr st" "ping st = int (k mod 2)"
    by blast
  have "ping st = 0 \<or> ping st = 1" using st(2) by (cases "even k") auto
  then obtain st' where r: "render drv w h st = Inr st'" using render_ok by blast
  have "ping st' = int (Suc k mod 2)"
    using render_Inr(3) [OF r] st(2) parity_flip [of k] by simp
  moreover have "run drv (replicate (Suc k) (w, h)) st0 = Inr st'"
    using st(1) r by (simp only: run_replicate_Suc sum.case)
  ultimately show ?case by blast
qed

text \<open>
  C2: in a run of \<open>n\<close> render calls at one size from the initial state, frame \<open>k\<close> binds
  history slot \<open>k mod 2\<close> as the write target of the accumulation pass (call 6 of the
  frame) and reads the other slot, \<open>1 - k mod 2\<close> (call 13, on texture unit 1); the ping
  index flips once per call, and the slot read is never the slot written. The run
  itself never faults.
\<close>

theorem ping_alternation:
  assumes "k < n"
  shows "\<exists>st_k s st_k' st_n.
      run drv (replicate n (w, h)) (init_engine\<lparr>orig := a\<rparr>) = Inr st_n
    \<and> run drv (replicate k (w, h)) (init_engine\<lparr>orig := a\<rparr>) = Inr st_k
    \<and> run drv (replicate (Suc k) (w, h)) (init_engine\<lparr>orig := a\<rparr>) = Inr st_k'
    \<and> run drv (replicate (n - Suc k) (w, h)) st_k' = Inr st_n
    \<and> render drv w h st_k = Inr st_k'
    \<and> s = size_check drv w h st_k
    \<and> passes w h (int (k mod 2)) (1 - int (k mod 2)) s = Inr st_k'
    \<and> new_calls s st_k' ! 6 =
        glBindFramebuffer GL_FRAMEBUFFER (the (at2 (histFBO s) (int (k mod 2))))
    \<and> new_calls s st_k' ! 13 = glBindTexture (the (at2 (histTex s) (1 - int (k mod 2))))
    \<and> int (k mod 2) \<noteq> 1 - int (k mod 2)
    \<and> ping st_k = int (k mod 2)
    \<and> ping st_k' = 1 - ping st_k"
proof -
  let ?i = "init_engine\<lparr>orig := a\<rparr>"
  have i: "ping ?i = 0" by (simp add: init_engine_def)
  obtain st_n where n: "run drv (replicate n (w, h)) ?i = Inr st_n"
    using run_frames [OF i] by blast
  obtain st_k where k: "run drv (replicate k (w, h)) ?i = Inr st_k" "ping st_k = int (k mod 2)"
    using run_frames [OF i] by blast
  obtain st_k' where k': "run drv (replicate (Suc k) (w, h)) ?i = Inr st_k'"
    using run_frames [OF i] by blast
  have "replicate n (w, h) = replicate (Suc k) (w, h) @ replicate (n - Suc k) (w, h)"
    using assms by (simp only: replicate_add [symmetric]) simp
  then have "run drv (replicate n (w, h)) ?i =
      run drv (replicate (Suc k) (w, h) @ replicate (n - Suc k) (w, h)) ?i"
    by (rule arg_cong)
  then have rest: "run drv (replicate (n - Suc k) (w, h)) st_k' = Inr st_n"
    using n k' by (simp only: run_append sum.case)
  have r: "render drv w h st_k = Inr st_k'"
    using k' k(1) by (simp only: run_replicate_Suc sum.case)
  let ?s = "size_check drv w h st_k"
  have p: "passes w h (int (k mod 2)) (1 - int (k mod 2)) ?s = Inr st_k'"
    using render_Inr(1) [OF r] k(2) by simp
  have c: "new_calls ?s st_k' ! 6 =
        glBindFramebuffer GL_FRAMEBUFFER (the (at2 (histFBO ?s) (int (k mod 2))))"
    "new_calls ?s st_k' ! 13 = glBindTexture (the (at2 (histTex ?s) (1 - int (k mod 2))))"
    by (simp_all add: passes_calls [OF p])
  have d: "int (k mod 2) \<noteq> 1 - int (k mod 2)" by presburger
  have f: "ping st_k' = 1 - ping st_k" using render_Inr(3) [OF r] .
  show ?thesis using n k k' rest r p c d f by blast
qed

theorem ping_alternation_witness:
  "(3::nat) < 5
   \<and> ping (projr (run seq_driver (replicate 3 (200, 200)) installed)) = 1
   \<and> ping (projr (run seq_driver (replicate 4 (200, 200)) installed)) = 0
   \<and> \<not> isl (run seq_driver (replicate 5 (200, 200)) installed)"
  using ping_alternation [of 3 5 seq_driver 200 200 1]
  by (auto simp: installed_def)

section \<open>Resizing\<close>

lemma take_filter_append:
  assumes "take (length (filter P xs)) xs = filter P xs" and "filter P ys = []"
  shows "take (length (filter P (xs @ ys))) (xs @ ys) = filter P (xs @ ys)"
proof -
  have "length (filter P xs) \<le> length xs" by (rule length_filter_le)
  then show ?thesis using assms by simp
qed

text \<open>
  C3, as the specification states it: when the size changes between two consecutive
  render calls, the second call reallocates once and sets the ping index back to 0
  before the frame proceeds. \<^verbatim>\<open>initGL\<close> never writes \<^verbatim>\<open>ping\<close>: after a first frame at
  200 by 200, the frame at 300 by 300 runs with \<^verbatim>\<open>cur = 1\<close>.
\<close>

theorem resize_keeps_ping_counterexample:
  "sW after_first \<noteq> 300
   \<and> ping (size_check seq_driver 300 300 after_first) \<noteq> 0
   \<and> render seq_driver 300 300 after_first =
       passes 300 300 1 0 (initGL seq_driver 300 300 after_first)"
  by (simp add: render_def size_check_def initGL_fields after_first_fields Let_def)

text \<open>
  C3, amended: when the size of the second of two consecutive render calls differs from
  the first's, the second call performs exactly one full reallocation cycle: the
  release of the old raw and history targets, first (issued when \<^verbatim>\<open>rawTex\<close> is not 0),
  then three target allocations at the new internal size. The ping index is left as
  the first call set it, \<open>1 - ping\<close>, and the frame proceeds with that value.
\<close>

theorem resize_reallocates_once:
  assumes "render drv1 w1 h1 st0 = Inr st1" and "(w2, h2) \<noteq> (w1, h1)"
  shows "\<exists>st2. render drv2 w2 h2 st1 = Inr st2
     \<and> size_check drv2 w2 h2 st1 = initGL drv2 w2 h2 st1
     \<and> filter is_release (new_calls st1 st2) =
          (if rawTex st1 \<noteq> 0
           then [glDeleteTextures [rawTex st1], glDeleteFramebuffers [rawFBO st1],
                 glDeleteTextures [fst (histTex st1), snd (histTex st1)],
                 glDeleteFramebuffers [fst (histFBO st1), snd (histFBO st1)],
                 glDeleteVertexArrays [vao st1]]
           else [])
     \<and> take (length (filter is_release (new_calls st1 st2))) (new_calls st1 st2) =
          filter is_release (new_calls st1 st2)
     \<and> filter is_target_alloc (new_calls st1 st2) =
          [glGenTextures, glTexImage2D (scaled w2) (scaled h2), glGenFramebuffers,
           glGenTextures, glTexImage2D (scaled w2) (scaled h2), glGenFramebuffers,
           glGenTextures, glTexImage2D (scaled w2) (scaled h2), glGenFramebuffers]
     \<and> ping (initGL drv2 w2 h2 st1) = ping st1
     \<and> ping st1 = 1 - ping st0
     \<and> passes w2 h2 (ping st1) (1 - ping st1) (initGL drv2 w2 h2 st1) = Inr st2"
proof -
  have size: "sW st1 = w1" "sH st1 = h1" using render_Inr(5,6) [OF assms(1)] by simp_all
  have flip: "ping st1 = 1 - ping st0" using render_Inr(3) [OF assms(1)] .
  have "ping st0 = 0 \<or> ping st0 = 1" using render_Inr(2) [OF assms(1)] .
  then have "ping st1 = 0 \<or> ping st1 = 1" using flip by auto
  then obtain st2 where r: "render drv2 w2 h2 st1 = Inr st2" using render_ok by blast
  let ?s = "initGL drv2 w2 h2 st1"
  have sc: "size_check drv2 w2 h2 st1 = ?s"
    using assms(2) size by (auto simp: size_check_def)
  have p: "passes w2 h2 (ping st1) (1 - ping st1) ?s = Inr st2"
    using render_Inr(1) [OF r] sc by simp
  have n: "new_calls st1 st2 = new_calls st1 ?s @ new_calls ?s st2"
    using render_trace(2) [OF r] sc by simp
  have rel: "filter is_release (new_calls st1 st2) = filter is_release (new_calls st1 ?s)"
    using n passes_filters(2) [OF p] by simp
  have first: "take (length (filter is_release (new_calls st1 st2))) (new_calls st1 st2) =
          filter is_release (new_calls st1 st2)"
    unfolding n
    by (rule take_filter_append [OF initGL_release_first passes_filters(2) [OF p]])
  have alloc: "filter is_target_alloc (new_calls st1 st2) =
      filter is_target_alloc (new_calls st1 ?s)"
    using n passes_filters(4) [OF p] by simp
  show ?thesis
    using r sc p flip first
    by (simp add: rel alloc initGL_release initGL_target_alloc initGL_fields)
qed

theorem resize_reallocates_once_witness:
  "render seq_driver 200 200 installed = Inr after_first
   \<and> (300::int, 300::int) \<noteq> (200, 200)
   \<and> filter is_release (new_calls after_first (projr (render seq_driver 300 300 after_first))) =
        [glDeleteTextures [35], glDeleteFramebuffers [42], glDeleteTextures [45, 55],
         glDeleteFramebuffers [52, 62], glDeleteVertexArrays [23]]
   \<and> filter is_target_alloc (new_calls after_first (projr (render seq_driver 300 300 after_first))) =
        [glGenTextures, glTexImage2D 150 150, glGenFramebuffers,
         glGenTextures, glTexImage2D 150 150, glGenFramebuffers,
         glGenTextures, glTexImage2D 150 150, glGenFramebuffers]
   \<and> ping (initGL seq_driver 300 300 after_first) = 1"
  using resize_reallocates_once [OF after_first_render, of 300 300 seq_driver]
  by (auto simp: after_first_render after_first_fields scaled_values)

section \<open>No reallocation at an unchanged size\<close>

lemma stable_frame:
  assumes "ping st = 0 \<or> ping st = 1" and "rawTex st \<noteq> 0" and "sW st = w" and "sH st = h"
  shows "\<exists>st'. render drv w h st = Inr st'
      \<and> (ping st' = 0 \<or> ping st' = 1) \<and> rawTex st' \<noteq> 0 \<and> sW st' = w \<and> sH st' = h
      \<and> filter is_alloc (trace st') = filter is_alloc (trace st)
      \<and> filter is_release (trace st') = filter is_release (trace st)"
proof -
  obtain st' where r: "render drv w h st = Inr st'" using render_ok [OF assms(1)] by blast
  have sc: "size_check drv w h st = st" using assms(2,3,4) by (simp add: size_check_def)
  have p: "passes w h (ping st) (1 - ping st) st = Inr st'" using render_Inr(1) [OF r] sc by simp
  have t: "trace st' = trace st @ new_calls st st'" using passes_trace [OF p] .
  have "filter is_alloc (trace st') = filter is_alloc (trace st)"
    using arg_cong [OF t, of "filter is_alloc"] passes_filters(1) [OF p] by simp
  moreover have "filter is_release (trace st') = filter is_release (trace st)"
    using arg_cong [OF t, of "filter is_release"] passes_filters(2) [OF p] by simp
  moreover have "ping st' = 0 \<or> ping st' = 1" using render_Inr(3) [OF r] assms(1) by auto
  moreover have "rawTex st' \<noteq> 0" using render_Inr(7) [OF r] sc assms(2) by simp
  ultimately show ?thesis using r render_Inr(5,6) [OF r] by blast
qed

lemma stable_run:
  assumes "ping st = 0 \<or> ping st = 1" and "rawTex st \<noteq> 0" and "sW st = w" and "sH st = h"
  shows "\<exists>st'. run drv (replicate n (w, h)) st = Inr st'
      \<and> filter is_alloc (trace st') = filter is_alloc (trace st)
      \<and> filter is_release (trace st') = filter is_release (trace st)"
  using assms
proof (induction n arbitrary: st)
  case 0
  then show ?case by simp
next
  case (Suc n)
  obtain st1 where s1: "render drv w h st = Inr st1"
      "ping st1 = 0 \<or> ping st1 = 1" "rawTex st1 \<noteq> 0" "sW st1 = w" "sH st1 = h"
      "filter is_alloc (trace st1) = filter is_alloc (trace st)"
      "filter is_release (trace st1) = filter is_release (trace st)"
    using stable_frame [OF Suc.prems] by blast
  obtain st' where s': "run drv (replicate n (w, h)) st1 = Inr st'"
      "filter is_alloc (trace st') = filter is_alloc (trace st1)"
      "filter is_release (trace st') = filter is_release (trace st1)"
    using Suc.IH [OF s1(2,3,4,5)] by blast
  have "run drv (replicate (Suc n) (w, h)) st = Inr st'" using s1(1) s'(1) by simp
  then show ?case using s1(6,7) s'(2,3) by simp
qed

text \<open>
  C5: from a reachable state in which the buffers exist (\<^verbatim>\<open>rawTex\<close> is not 0) and the
  stored size is the incoming one, any number of render calls at that size issues no
  allocation (and no release): the allocation count stays what it was. The state after
  the first frame at a size is such a state.
\<close>

theorem stable_size_no_allocation:
  assumes "reachable st" and "rawTex st \<noteq> 0" and "sW st = w" and "sH st = h"
  shows "\<exists>st'. run drv (replicate n (w, h)) st = Inr st'
      \<and> alloc_count st' = alloc_count st
      \<and> filter is_release (trace st') = filter is_release (trace st)"
  using stable_run [OF reachable_ping [OF assms(1)] assms(2,3,4), of drv n]
  by (auto simp: alloc_count_def)

theorem stable_size_no_allocation_witness:
  "reachable after_first \<and> rawTex after_first \<noteq> 0 \<and> sW after_first = 200 \<and> sH after_first = 200
   \<and> alloc_count (projr (run seq_driver (replicate 2 (200, 200)) after_first)) =
       alloc_count after_first"
  using stable_size_no_allocation [OF after_first_reachable, of 200 200 seq_driver 2]
  by (auto simp: after_first_reachable after_first_fields)

section \<open>The present interceptor and the status queries\<close>

lemma initGL_forward: "filter is_forward (new_calls st (initGL drv w h st)) = []"
  by (simp add: initGL_defs world_defs new_calls_def)

lemma render_new_calls:
  assumes "render drv w h st = Inr st'"
  shows "new_calls st st' \<noteq> []"
    and "filter is_forward (new_calls st st') = []"
    and "filter is_status_query (new_calls st st') = []"
proof -
  let ?s = "size_check drv w h st"
  have p: "passes w h (ping st) (1 - ping st) ?s = Inr st'" using render_Inr(1) [OF assms] .
  have n: "new_calls st st' = new_calls st ?s @ new_calls ?s st'" using render_trace(2) [OF assms] .
  show "new_calls st st' \<noteq> []" unfolding n by (simp add: passes_calls [OF p])
  have "filter is_forward (new_calls st ?s) = []"
    using initGL_forward [of st drv w h] by (simp add: size_check_def new_calls_def)
  then show "filter is_forward (new_calls st st') = []"
    unfolding n by (simp add: passes_calls [OF p])
  show "filter is_status_query (new_calls st st') = []"
    unfolding n by (simp add: size_check_status passes_filters(3) [OF p])
qed

lemma hook_unfold:
  "hook drv d s st =
     (let w = sint (drv (length (trace st))); h = sint (drv (Suc (length (trace st))));
          st2 = emits [eglQuerySurface d s EGL_WIDTH, eglQuerySurface d s EGL_HEIGHT] st
      in case (if w > 100 then render drv w h st2 else Inr st2) of
           Inl e \<Rightarrow> Inl e
         | Inr st3 \<Rightarrow>
             if orig st3 = 0 then Inl NullCall
             else Inr (drv (length (trace st3)), emit (call_original (orig st3) d s) st3))"
  by (auto simp: hook_def world_defs split: sum.splits)

lemma hook_shape:
  assumes "ping st = 0 \<or> ping st = 1" and "orig st \<noteq> 0"
  shows "\<exists>w h st2 st3 r st'.
      w = sint (drv (length (trace st))) \<and> h = sint (drv (Suc (length (trace st))))
    \<and> st2 = emits [eglQuerySurface d s EGL_WIDTH, eglQuerySurface d s EGL_HEIGHT] st
    \<and> (if 100 < w then render drv w h st2 = Inr st3 else st3 = st2)
    \<and> (new_calls st2 st3 = [] \<longleftrightarrow> \<not> 100 < w)
    \<and> filter is_forward (new_calls st2 st3) = []
    \<and> filter is_status_query (new_calls st2 st3) = []
    \<and> st' = emit (call_original (orig st) d s) st3
    \<and> r = drv (length (trace st3))
    \<and> hook drv d s st = Inr (r, st')
    \<and> trace st' = trace st @ [eglQuerySurface d s EGL_WIDTH, eglQuerySurface d s EGL_HEIGHT]
         @ new_calls st2 st3 @ [call_original (orig st) d s]"
proof -
  define w where "w = sint (drv (length (trace st)))"
  define h where "h = sint (drv (Suc (length (trace st))))"
  define st2 where "st2 = emits [eglQuerySurface d s EGL_WIDTH, eglQuerySurface d s EGL_HEIGHT] st"
  have p2: "ping st2 = 0 \<or> ping st2 = 1" and o2: "orig st2 = orig st"
    and t2: "trace st2 = trace st @ [eglQuerySurface d s EGL_WIDTH, eglQuerySurface d s EGL_HEIGHT]"
    using assms(1) by (simp_all add: st2_def emits_def)
  show ?thesis
  proof (cases "100 < w")
    case True
    obtain st3 where r: "render drv w h st2 = Inr st3" using render_ok [OF p2] by blast
    have o3: "orig st3 = orig st" using render_Inr(4) [OF r] o2 by simp
    have t3: "trace st3 = trace st2 @ new_calls st2 st3" using render_trace(1) [OF r] .
    have "hook drv d s st = Inr (drv (length (trace st3)), emit (call_original (orig st) d s) st3)"
      using True r o3 assms(2) by (simp add: hook_unfold w_def h_def st2_def)
    moreover have "trace (emit (call_original (orig st) d s) st3) =
        trace st @ [eglQuerySurface d s EGL_WIDTH, eglQuerySurface d s EGL_HEIGHT]
          @ new_calls st2 st3 @ [call_original (orig st) d s]"
      using t3 t2 by (simp add: emit_def)
    ultimately show ?thesis
      using True r render_new_calls [OF r] w_def h_def st2_def
      by (intro exI [of _ w] exI [of _ h] exI [of _ st2] exI [of _ st3]
          exI [of _ "drv (length (trace st3))"]
          exI [of _ "emit (call_original (orig st) d s) st3"]) simp
  next
    case False
    have "hook drv d s st = Inr (drv (length (trace st2)), emit (call_original (orig st) d s) st2)"
      using False o2 assms(2) by (simp add: hook_unfold w_def h_def st2_def Let_def)
    moreover have "trace (emit (call_original (orig st) d s) st2) =
        trace st @ [eglQuerySurface d s EGL_WIDTH, eglQuerySurface d s EGL_HEIGHT]
          @ new_calls st2 st2 @ [call_original (orig st) d s]"
      using t2 by (simp add: emit_def new_calls_def)
    moreover have "new_calls st2 st2 = []" by (simp add: new_calls_def)
    ultimately show ?thesis
      using False w_def h_def st2_def
      by (intro exI [of _ w] exI [of _ h] exI [of _ st2] exI [of _ st2]
          exI [of _ "drv (length (trace st2))"]
          exI [of _ "emit (call_original (orig st) d s) st2"]) simp
  qed
qed

lemma hook_Inr_orig:
  assumes "hook drv d s st = Inr (r, st')"
  shows "orig st \<noteq> 0"
proof
  assume z: "orig st = 0"
  define w where "w = sint (drv (length (trace st)))"
  define h where "h = sint (drv (Suc (length (trace st))))"
  define st2 where "st2 = emits [eglQuerySurface d s EGL_WIDTH, eglQuerySurface d s EGL_HEIGHT] st"
  have o2: "orig st2 = 0" using z by (simp add: st2_def emits_def)
  have "isl (hook drv d s st)"
  proof (cases "100 < w")
    case True
    show ?thesis
    proof (cases "render drv w h st2")
      case (Inl e)
      then show ?thesis using True by (simp add: hook_unfold w_def h_def st2_def)
    next
      case (Inr st3)
      have "orig st3 = 0" using render_Inr(4) [OF Inr] o2 by simp
      then show ?thesis using True Inr by (simp add: hook_unfold w_def h_def st2_def)
    qed
  next
    case False
    then show ?thesis using o2 by (simp add: hook_unfold w_def h_def st2_def)
  qed
  then show False using assms by simp
qed

lemma reachable_no_status: "reachable st \<Longrightarrow> filter is_status_query (trace st) = []"
proof (induction rule: reachable.induct)
  case (start a)
  show ?case by (simp add: init_engine_def)
next
  case (frame st drv w h st')
  have "trace st' = trace st @ new_calls st st'" using render_trace(1) [OF frame.hyps(2)] .
  then have "filter is_status_query (trace st') =
      filter is_status_query (trace st) @ filter is_status_query (new_calls st st')"
    using arg_cong [of "trace st'" _ "filter is_status_query"] by simp
  then show ?case using frame.IH render_new_calls(3) [OF frame.hyps(2)] by simp
next
  case (present st drv d s r st')
  have o: "orig st \<noteq> 0" using hook_Inr_orig [OF present.hyps(2)] .
  obtain st2 st3 :: engine and r' st'' where
      f: "filter is_status_query (new_calls st2 st3) = []"
      and k: "hook drv d s st = Inr (r', st'')"
      and t: "trace st'' = trace st @ [eglQuerySurface d s EGL_WIDTH, eglQuerySurface d s EGL_HEIGHT]
         @ new_calls st2 st3 @ [call_original (orig st) d s]"
    using hook_shape [OF reachable_ping [OF present.hyps(1)] o, of drv d s] by blast
  have "st'' = st'" using k present.hyps(2) by simp
  then show ?case using t f present.IH by simp
qed

lemma after_failed_render: "render failing_driver 1920 1080 installed = Inr after_failed"
proof -
  obtain st' where "render failing_driver 1920 1080 installed = Inr st'"
    using render_ok [of installed failing_driver 1920 1080] installed_fields by auto
  then show ?thesis by (simp add: after_failed_def)
qed

text \<open>
  C6, as the specification states it: when texture or framebuffer creation fails
  during (re)initialization, the engine detects the incomplete framebuffer and skips
  the effect until a successful re-initialization. Under a driver whose every request
  fails, the first frame of a 1920 by 1080 surface leaves every name at 0, asks for no
  status, and still ends with the output pass drawn into framebuffer 0.
\<close>

theorem failed_init_still_draws_counterexample:
  "render failing_driver 1920 1080 installed = Inr after_failed
   \<and> rawTex after_failed = 0 \<and> histTex after_failed = (0, 0) \<and> histFBO after_failed = (0, 0)
   \<and> filter is_status_query (trace after_failed) = []
   \<and> drop 85 (trace after_failed) =
       [glBindFramebuffer GL_FRAMEBUFFER 0, glViewport 0 0 1920 1080, glUseProgram 0,
        glActiveTexture 0, glBindTexture 0, glDrawElements 6]"
  by (simp add: after_failed_render)
     (simp add: after_failed_def render_def size_check_def passes_def at2_def installed_def
       init_engine_def initGL_defs world_defs failing_driver_def scaled_values)

text \<open>
  C6, amended: the engine makes no completeness check. From every reachable state,
  whatever the driver answered during (re)initialization, a render call returns
  without a fault, no status query stands in the trace, and the call issues the whole
  frame: the downscale blit, the accumulation draw and the output draw into
  framebuffer 0. Nothing is skipped.
\<close>

theorem no_completeness_check:
  assumes "reachable st"
  shows "\<exists>s st'. s = size_check drv w h st
     \<and> render drv w h st = Inr st'
     \<and> filter is_status_query (trace st') = []
     \<and> new_calls s st' =
         [glDisable GL_SCISSOR_TEST, glDisable GL_DEPTH_TEST, glDisable GL_BLEND,
          glBindFramebuffer GL_READ_FRAMEBUFFER 0,
          glBindFramebuffer GL_DRAW_FRAMEBUFFER (rawFBO s),
          glBlitFramebuffer 0 0 w h 0 0 (iW s) (iH s),
          glBindFramebuffer GL_FRAMEBUFFER (the (at2 (histFBO s) (ping st))),
          glViewport 0 0 (iW s) (iH s),
          glBindVertexArray (vao s),
          glUseProgram (progBlur s),
          glActiveTexture 0, glBindTexture (rawTex s),
          glActiveTexture 1, glBindTexture (the (at2 (histTex s) (1 - ping st))),
          glDrawElements 6,
          glBindFramebuffer GL_FRAMEBUFFER 0, glViewport 0 0 w h,
          glUseProgram (progDraw s),
          glActiveTexture 0, glBindTexture (the (at2 (histTex s) (ping st))),
          glDrawElements 6]"
proof -
  obtain st' where r: "render drv w h st = Inr st'"
    using render_ok [OF reachable_ping [OF assms]] by blast
  have "reachable st'" using reachable.frame [OF assms r] .
  then have "filter is_status_query (trace st') = []" by (rule reachable_no_status)
  then show ?thesis using r passes_calls [OF render_Inr(1) [OF r]] by simp
qed

theorem no_completeness_check_witness:
  "reachable installed
   \<and> render failing_driver 1920 1080 installed = Inr after_failed
   \<and> filter is_status_query (trace after_failed) = []
   \<and> drop 15 (new_calls (size_check failing_driver 1920 1080 installed) after_failed) =
       [glBindFramebuffer GL_FRAMEBUFFER 0, glViewport 0 0 1920 1080,
        glUseProgram (progDraw (size_check failing_driver 1920 1080 installed)),
        glActiveTexture 0,
        glBindTexture (the (at2 (histTex (size_check failing_driver 1920 1080 installed)) 0)),
        glDrawElements 6]"
  using no_completeness_check [OF installed_reachable, of failing_driver 1920 1080]
  by (simp add: installed_reachable after_failed_render installed_fields)

section \<open>Program objects\<close>

lemma flaky_first_render: "render flaky_driver 200 200 installed = Inr flaky_first"
proof -
  obtain st' where "render flaky_driver 200 200 installed = Inr st'"
    using render_ok [of installed flaky_driver 200 200] installed_fields by auto
  then show ?thesis by (simp add: flaky_first_def)
qed

lemma initGL_length:
  "length (trace (initGL drv w h st)) = length (trace (cleanup st)) + 70"
  by (simp add: initGL_defs world_defs)

lemma render_length:
  assumes "render drv w h st = Inr st'"
  shows "length (trace st') = length (trace (size_check drv w h st)) + 21"
  using arg_cong [OF passes_trace [OF render_Inr(1) [OF assms]], of length]
  by (simp add: passes_calls [OF render_Inr(1) [OF assms]])

lemma render_programs:
  assumes "render drv w h st = Inr st'"
  shows "progBlur st' = progBlur (size_check drv w h st)"
    and "progDraw st' = progDraw (size_check drv w h st)"
  using passes_fields(10,11) [OF render_Inr(1) [OF assms]] by simp_all

lemma flaky_first_fields:
  "ping flaky_first = 1" "sW flaky_first = 200" "sH flaky_first = 200"
  "rawTex flaky_first = 35" "length (trace flaky_first) = 91"
  "progBlur flaky_first = 10" "progDraw flaky_first = 19"
proof -
  note r = flaky_first_render
  have s: "size_check flaky_driver 200 200 installed = initGL flaky_driver 200 200 installed"
    by (simp add: size_check_def installed_fields)
  have c: "length (trace (cleanup installed)) = 0"
    by (simp add: cleanup_def installed_fields)
  show "ping flaky_first = 1" using render_Inr(3) [OF r] by (simp add: installed_fields)
  show "sW flaky_first = 200" "sH flaky_first = 200" using render_Inr(5,6) [OF r] by simp_all
  show "rawTex flaky_first = 35"
    using render_Inr(7) [OF r] by (simp add: s initGL_rawTex c flaky_driver_def)
  show "length (trace flaky_first) = 91"
    using render_length [OF r] by (simp add: s initGL_length c)
  show "progBlur flaky_first = 10" "progDraw flaky_first = 19"
    using render_programs [OF r] by (simp_all add: s initGL_programs c flaky_driver_def)
qed

lemma flaky_first_reachable: "reachable flaky_first"
  using reachable.frame [OF installed_reachable flaky_first_render] .

lemma flaky_second_render: "render flaky_driver 300 300 flaky_first = Inr flaky_second"
proof -
  obtain st' where "render flaky_driver 300 300 flaky_first = Inr st'"
    using render_ok [of flaky_first flaky_driver 300 300] flaky_first_fields by auto
  then show ?thesis by (simp add: flaky_second_def)
qed

lemma cleanup_length:
  "length (trace (cleanup st)) = (if rawTex st \<noteq> 0 then length (trace st) + 5 else length (trace st))"
  by (simp add: cleanup_def emits_def)

lemma initGL_create_calls:
  "trace (initGL drv w h st) ! (length (trace (cleanup st)) + 9) = glCreateProgram"
  "trace (initGL drv w h st) ! (length (trace (cleanup st)) + 18) = glCreateProgram"
  by (simp_all add: initGL_defs world_defs nth_append)

text \<open>
  C7, as the specification states it: re-initialization validates compile and link
  status and keeps the previous programs when the replacement failed. Under a driver
  that works during the first frame and fails afterwards, the resize to 300 by 300
  replaces the program ids 10 and 19 by 0, asks for no status, and the frame binds
  program 0 in both passes.
\<close>

theorem broken_program_bound_counterexample:
  "render flaky_driver 200 200 installed = Inr flaky_first
   \<and> render flaky_driver 300 300 flaky_first = Inr flaky_second
   \<and> progBlur flaky_first = 10 \<and> progDraw flaky_first = 19
   \<and> progBlur flaky_second = 0 \<and> progDraw flaky_second = 0
   \<and> filter is_status_query (trace flaky_second) = []
   \<and> new_calls (size_check flaky_driver 300 300 flaky_first) flaky_second ! 9 = glUseProgram 0
   \<and> new_calls (size_check flaky_driver 300 300 flaky_first) flaky_second ! 17 = glUseProgram 0"
proof -
  let ?s = "size_check flaky_driver 300 300 flaky_first"
  have s: "?s = initGL flaky_driver 300 300 flaky_first"
    by (simp add: size_check_def flaky_first_fields)
  have p: "passes 300 300 (ping flaky_first) (1 - ping flaky_first) ?s = Inr flaky_second"
    using render_Inr(1) [OF flaky_second_render] .
  have b: "progBlur ?s = 0" "progDraw ?s = 0"
    unfolding s
    by (simp_all add: initGL_programs cleanup_length flaky_first_fields flaky_driver_def)
  have "reachable flaky_second"
    using reachable.frame [OF flaky_first_reachable flaky_second_render] .
  then have q: "filter is_status_query (trace flaky_second) = []" by (rule reachable_no_status)
  show ?thesis
    using b q passes_fields(10,11) [OF p]
    by (simp add: flaky_first_render flaky_second_render flaky_first_fields passes_calls [OF p])
qed

text \<open>
  C7, amended: \<^verbatim>\<open>initGL\<close> reads neither compile nor link status. It stores what its
  two \<^verbatim>\<open>glCreateProgram\<close> calls return (calls 9 and 18 after the cleanup) in
  \<^verbatim>\<open>progBlur\<close> and \<^verbatim>\<open>progDraw\<close>, in place of the previous ids, and the frames that
  follow bind the stored ids (calls 9 and 17 of a frame).
\<close>

theorem programs_replaced_unchecked:
  assumes "reachable st"
  shows "\<exists>n s st'. n = length (trace (cleanup st)) \<and> s = initGL drv w h st
     \<and> trace s ! (n + 9) = glCreateProgram \<and> progBlur s = drv (n + 9)
     \<and> trace s ! (n + 18) = glCreateProgram \<and> progDraw s = drv (n + 18)
     \<and> filter is_status_query (trace s) = []
     \<and> render drv' w' h' s = Inr st'
     \<and> new_calls (size_check drv' w' h' s) st' ! 9 = glUseProgram (progBlur (size_check drv' w' h' s))
     \<and> new_calls (size_check drv' w' h' s) st' ! 17 = glUseProgram (progDraw (size_check drv' w' h' s))
     \<and> filter is_status_query (trace st') = []"
proof -
  let ?s = "initGL drv w h st"
  have p: "ping ?s = 0 \<or> ping ?s = 1" using reachable_ping [OF assms] by (simp add: initGL_fields)
  obtain st' where r: "render drv' w' h' ?s = Inr st'" using render_ok [OF p] by blast
  have q0: "filter is_status_query (trace ?s) = []"
    using arg_cong [OF initGL_trace [of drv w h st], of "filter is_status_query"]
      reachable_no_status [OF assms] initGL_status [of st drv w h] by simp
  have t: "trace st' = trace ?s @ new_calls ?s st'" using render_trace(1) [OF r] .
  have q1: "filter is_status_query (trace st') = []"
    using arg_cong [OF t, of "filter is_status_query"] q0 render_new_calls(3) [OF r] by simp
  have c: "new_calls (size_check drv' w' h' ?s) st' ! 9 = glUseProgram (progBlur (size_check drv' w' h' ?s))"
    "new_calls (size_check drv' w' h' ?s) st' ! 17 = glUseProgram (progDraw (size_check drv' w' h' ?s))"
    by (simp_all add: passes_calls [OF render_Inr(1) [OF r]])
  show ?thesis using r q0 q1 c by (simp add: initGL_create_calls initGL_programs)
qed

theorem programs_replaced_unchecked_witness:
  "reachable flaky_first
   \<and> progBlur (initGL flaky_driver 300 300 flaky_first) = flaky_driver 105
   \<and> progDraw (initGL flaky_driver 300 300 flaky_first) = flaky_driver 114
   \<and> filter is_status_query (trace (initGL flaky_driver 300 300 flaky_first)) = []"
  using programs_replaced_unchecked [OF flaky_first_reachable, of flaky_driver 300 300]
  by (simp add: flaky_first_reachable cleanup_length flaky_first_fields)

section \<open>Facts about the simple-blend variant\<close>

lemmas initResources_defs =
  initResources_def targets_def t_target_def quad_def link_programs_def c_shader_def
  release_old_def

lemma initResources_fields:
  "pingPongIndex (initResources drv w h st) = pingPongIndex st"
  "orig_swap (initResources drv w h st) = orig_swap st"
  "isFirstFrame (initResources drv w h st)"
  "savedWidth (initResources drv w h st) = w"
  "savedHeight (initResources drv w h st) = h"
  "internalW (initResources drv w h st) = scaled w"
  "internalH (initResources drv w h st) = scaled h"
  by (simp_all add: initResources_defs world_defs)

lemma initResources_trace:
  "trace (initResources drv w h st) = trace st @ new_calls st (initResources drv w h st)"
  by (simp add: initResources_defs world_defs new_calls_def)

lemma initResources_forward:
  "filter is_forward (new_calls st (initResources drv w h st)) = []"
  by (simp add: initResources_defs world_defs new_calls_def)

lemma check_size_fields:
  "pingPongIndex (check_size drv w h st) = pingPongIndex st"
  "orig_swap (check_size drv w h st) = orig_swap st"
  "savedWidth (check_size drv w h st) = w"
  "savedHeight (check_size drv w h st) = h"
  by (auto simp: check_size_def initResources_fields)

lemma check_size_trace:
  "trace (check_size drv w h st) = trace st @ new_calls st (check_size drv w h st)"
  using initResources_trace [of drv w h st] by (simp add: check_size_def new_calls_def)

lemma check_size_forward:
  "filter is_forward (new_calls st (check_size drv w h st)) = []"
  using initResources_forward [of st drv w h] by (simp add: check_size_def new_calls_def)

lemma check_size_first:
  "w \<noteq> savedWidth st \<or> h \<noteq> savedHeight st \<or> rawTexture st = 0 \<Longrightarrow>
     isFirstFrame (check_size drv w h st)"
  "\<not> (w \<noteq> savedWidth st \<or> h \<noteq> savedHeight st \<or> rawTexture st = 0) \<Longrightarrow>
     check_size drv w h st = st"
  by (auto simp: check_size_def initResources_fields)

text \<open>The calls of one frame of \<^verbatim>\<open>render_effect\<close>, after the size check.\<close>

lemma render_effect_calls:
  assumes "render_effect drv w h st = Inr st'"
  shows "new_calls (check_size drv w h st) st' =
      [glGetFramebufferBinding,
       glDisable GL_SCISSOR_TEST, glDisable GL_DEPTH_TEST, glDisable GL_BLEND,
       glBindFramebuffer GL_READ_FRAMEBUFFER 0,
       glBindFramebuffer GL_DRAW_FRAMEBUFFER (rawFBO' (check_size drv w h st)),
       glBlitFramebuffer 0 0 w h 0 0 (internalW (check_size drv w h st))
         (internalH (check_size drv w h st)),
       glBindVertexArray (vao' (check_size drv w h st)),
       glViewport 0 0 (internalW (check_size drv w h st)) (internalH (check_size drv w h st)),
       glBindFramebuffer GL_FRAMEBUFFER
         (the (at2 (historyFBOs (check_size drv w h st)) (pingPongIndex st)))]
      @ (if isFirstFrame (check_size drv w h st)
         then [glUseProgram (drawProgram (check_size drv w h st)),
               glActiveTexture 0, glBindTexture (rawTexture (check_size drv w h st)),
               glUniform1i (locTexture (check_size drv w h st)) 0,
               glDrawElements 6]
         else [glUseProgram (blendProgram (check_size drv w h st)),
               glActiveTexture 0, glBindTexture (rawTexture (check_size drv w h st)),
               glUniform1i (locCurrent (check_size drv w h st)) 0,
               glActiveTexture 1,
               glBindTexture (the (at2 (historyTextures (check_size drv w h st))
                 (1 - pingPongIndex st))),
               glUniform1i (locHistory (check_size drv w h st)) 1,
               glUniform1f (locFactor (check_size drv w h st)) BLUR_STRENGTH,
               glDrawElements 6])
      @ [glBindFramebuffer GL_FRAMEBUFFER 0, glViewport 0 0 w h,
         glUseProgram (drawProgram (check_size drv w h st)),
         glActiveTexture 0,
         glBindTexture (the (at2 (historyTextures (check_size drv w h st)) (pingPongIndex st))),
         glUniform1i (locTexture (check_size drv w h st)) 0,
         glDrawElements 6,
         glBindVertexArray 0]"
  using assms
  by (auto simp: render_effect_def apply_blur_def world_defs new_calls_def check_size_fields
      split: option.splits if_splits sum.splits)

lemma render_effect_trace:
  assumes "render_effect drv w h st = Inr st'"
  shows "trace st' = trace (check_size drv w h st) @ new_calls (check_size drv w h st) st'"
  using assms
  by (auto simp: render_effect_def apply_blur_def world_defs new_calls_def
      split: option.splits if_splits sum.splits)

lemma render_effect_fields:
  assumes "render_effect drv w h st = Inr st'"
  shows "pingPongIndex st' = 1 - pingPongIndex st"
    and "orig_swap st' = orig_swap st"
    and "\<not> isFirstFrame st'"
    and "savedWidth st' = w" and "savedHeight st' = h"
    and "rawTexture st' = rawTexture (check_size drv w h st)"
    and "blendProgram st' = blendProgram (check_size drv w h st)"
    and "drawProgram st' = drawProgram (check_size drv w h st)"
  using assms
  by (auto simp: render_effect_def apply_blur_def world_defs check_size_fields
      split: option.splits if_splits sum.splits)

lemma render_effect_index:
  assumes "render_effect drv w h st = Inr st'"
  shows "pingPongIndex st = 0 \<or> pingPongIndex st = 1"
  using assms
  by (auto simp: render_effect_def apply_blur_def world_defs check_size_fields at2_def
      split: option.splits if_splits sum.splits)

lemma render_effect_ok:
  assumes "pingPongIndex st = 0 \<or> pingPongIndex st = 1"
  shows "\<exists>st'. render_effect drv w h st = Inr st'"
  using assms
  by (auto simp: render_effect_def apply_blur_def world_defs check_size_fields at2_def
      split: option.splits if_splits sum.splits)

lemma render_effect_new_calls:
  assumes "render_effect drv w h st = Inr st'"
  shows "trace st' = trace st @ new_calls st st'"
    and "new_calls st st' \<noteq> []"
    and "filter is_forward (new_calls st st') = []"
proof -
  let ?s = "check_size drv w h st"
  have t: "trace st' = trace st @ (new_calls st ?s @ new_calls ?s st')"
    using render_effect_trace [OF assms] check_size_trace [of drv w h st] by simp
  have n: "new_calls st st' = new_calls st ?s @ new_calls ?s st'"
    using new_calls_append [OF t] .
  show "trace st' = trace st @ new_calls st st'" using t n by simp
  show "new_calls st st' \<noteq> []" unfolding n by (simp add: render_effect_calls [OF assms])
  show "filter is_forward (new_calls st st') = []"
    unfolding n by (simp add: check_size_forward render_effect_calls [OF assms])
qed

lemma hook_swap_unfold:
  "hook_swap drv d s st =
     (if orig_swap st \<noteq> 0 then
        (let w = sint (drv (length (trace st))); h = sint (drv (Suc (length (trace st))));
             st2 = emits [eglQuerySurface d s EGL_WIDTH, eglQuerySurface d s EGL_HEIGHT] st
         in case (if w > 100 then render_effect drv w h st2 else Inr st2) of
              Inl e \<Rightarrow> Inl e
            | Inr st3 \<Rightarrow>
                Inr (drv (length (trace st3)), emit (call_original (orig_swap st3) d s) st3))
      else Inr (EGL_FALSE, st))"
  by (auto simp: hook_swap_def world_defs split: sum.splits)

lemma hook_swap_shape:
  assumes "pingPongIndex st = 0 \<or> pingPongIndex st = 1" and "orig_swap st \<noteq> 0"
  shows "\<exists>w h st2 st3 r st'.
      w = sint (drv (length (trace st))) \<and> h = sint (drv (Suc (length (trace st))))
    \<and> st2 = emits [eglQuerySurface d s EGL_WIDTH, eglQuerySurface d s EGL_HEIGHT] st
    \<and> (if 100 < w then render_effect drv w h st2 = Inr st3 else st3 = st2)
    \<and> (new_calls st2 st3 = [] \<longleftrightarrow> \<not> 100 < w)
    \<and> filter is_forward (new_calls st2 st3) = []
    \<and> st' = emit (call_original (orig_swap st) d s) st3
    \<and> r = drv (length (trace st3))
    \<and> hook_swap drv d s st = Inr (r, st')
    \<and> trace st' = trace st @ [eglQuerySurface d s EGL_WIDTH, eglQuerySurface d s EGL_HEIGHT]
         @ new_calls st2 st3 @ [call_original (orig_swap st) d s]"
proof -
  define w where "w = sint (drv (length (trace st)))"
  define h where "h = sint (drv (Suc (length (trace st))))"
  define st2 where "st2 = emits [eglQuerySurface d s EGL_WIDTH, eglQuerySurface d s EGL_HEIGHT] st"
  have p2: "pingPongIndex st2 = 0 \<or> pingPongIndex st2 = 1" and o2: "orig_swap st2 = orig_swap st"
    and t2: "trace st2 = trace st @ [eglQuerySurface d s EGL_WIDTH, eglQuerySurface d s EGL_HEIGHT]"
    using assms(1) by (simp_all add: st2_def emits_def)
  show ?thesis
  proof (cases "100 < w")
    case True
    obtain st3 where r: "render_effect drv w h st2 = Inr st3" using render_effect_ok [OF p2] by blast
    have o3: "orig_swap st3 = orig_swap st" using render_effect_fields(2) [OF r] o2 by simp
    have t3: "trace st3 = trace st2 @ new_calls st2 st3" using render_effect_new_calls(1) [OF r] .
    have "hook_swap drv d s st =
        Inr (drv (length (trace st3)), emit (call_original (orig_swap st) d s) st3)"
      using True r o3 assms(2) by (simp add: hook_swap_unfold w_def h_def st2_def)
    moreover have "trace (emit (call_original (orig_swap st) d s) st3) =
        trace st @ [eglQuerySurface d s EGL_WIDTH, eglQuerySurface d s EGL_HEIGHT]
          @ new_calls st2 st3 @ [call_original (orig_swap st) d s]"
      using t3 t2 by (simp add: emit_def)
    ultimately show ?thesis
      using True r render_effect_new_calls(2,3) [OF r] w_def h_def st2_def
      by (intro exI [of _ w] exI [of _ h] exI [of _ st2] exI [of _ st3]
          exI [of _ "drv (length (trace st3))"]
          exI [of _ "emit (call_original (orig_swap st) d s) st3"]) simp
  next
    case False
    have "hook_swap drv d s st =
        Inr (drv (length (trace st2)), emit (call_original (orig_swap st) d s) st2)"
      using False o2 assms(2) by (simp add: hook_swap_unfold w_def h_def st2_def Let_def)
    moreover have "trace (emit (call_original (orig_swap st) d s) st2) =
        trace st @ [eglQuerySurface d s EGL_WIDTH, eglQuerySurface d s EGL_HEIGHT]
          @ new_calls st2 st2 @ [call_original (orig_swap st) d s]"
      using t2 by (simp add: emit_def new_calls_def)
    moreover have "new_calls st2 st2 = []" by (simp add: new_calls_def)
    ultimately show ?thesis
      using False w_def h_def st2_def
      by (intro exI [of _ w] exI [of _ h] exI [of _ st2] exI [of _ st2]
          exI [of _ "drv (length (trace st2))"]
          exI [of _ "emit (call_original (orig_swap st) d s) st2"]) simp
  qed
qed

lemma hook_swap_index:
  assumes "hook_swap drv d s st = Inr (r, st')"
    and "pingPongIndex st = 0 \<or> pingPongIndex st = 1"
  shows "pingPongIndex st' = 0 \<or> pingPongIndex st' = 1"
proof (cases "orig_swap st = 0")
  case True
  then show ?thesis using assms by (simp add: hook_swap_unfold)
next
  case False
  obtain w h and st2 st3 :: blend_engine and r' st'' where
      a: "st2 = emits [eglQuerySurface d s EGL_WIDTH, eglQuerySurface d s EGL_HEIGHT] st"
      and b: "if 100 < w then render_effect drv w h st2 = Inr st3 else st3 = st2"
      and c: "st'' = emit (call_original (orig_swap st) d s) st3"
      and k: "hook_swap drv d s st = Inr (r', st'')"
    using hook_swap_shape [OF assms(2) False, of drv d s] by blast
  have e: "st'' = st'" using k assms(1) by simp
  have p2: "pingPongIndex st2 = pingPongIndex st" using a by (simp add: emits_def)
  have "pingPongIndex st3 = 0 \<or> pingPongIndex st3 = 1"
  proof (cases "100 < w")
    case True
    then have "render_effect drv w h st2 = Inr st3" using b by simp
    then show ?thesis using render_effect_fields(1) p2 assms(2) by fastforce
  next
    case False
    then show ?thesis using b p2 assms(2) by simp
  qed
  then show ?thesis using c e by (simp add: emit_def)
qed

lemma blend_reachable_index:
  "blend_reachable st \<Longrightarrow> pingPongIndex st = 0 \<or> pingPongIndex st = 1"
proof (induction rule: blend_reachable.induct)
  case (blend_start a)
  show ?case by (simp add: init_blend_engine_def)
next
  case (blend_frame st drv w h st')
  then show ?case using render_effect_fields(1) [OF blend_frame.hyps(2)] by auto
next
  case (blend_present st drv d s r st')
  then show ?case using hook_swap_index [OF blend_present.hyps(2)] by simp
qed

lemma blend_installed_reachable: "blend_reachable blend_installed"
  unfolding blend_installed_def by (rule blend_reachable.blend_start)

lemma blend_installed_fields:
  "pingPongIndex blend_installed = 0" "orig_swap blend_installed = 1"
  "rawTexture blend_installed = 0" "trace blend_installed = []" "isFirstFrame blend_installed"
  by (simp_all add: blend_installed_def init_blend_engine_def)

lemma blend_first_render: "render_effect seq_driver 200 200 blend_installed = Inr blend_first"
proof -
  obtain st' where "render_effect seq_driver 200 200 blend_installed = Inr st'"
    using render_effect_ok [of blend_installed seq_driver 200 200] blend_installed_fields by auto
  then show ?thesis by (simp add: blend_first_def)
qed

section \<open>The present interceptor\<close>

text \<open>
  C1: every call of the installed interceptor, in a reachable state with a non-null
  saved pointer and for any display and surface, queries the width and then the
  height of that surface, runs the render engine exactly when the width read is
  greater than 100 (the engine always adds calls, so the calls between the queries
  and the forward are empty exactly when it did not run), then calls the original
  present function once, last, with the same display and surface, and returns the
  value that call returned. Stated for \<^verbatim>\<open>hook\<close> of \<^verbatim>\<open>main.cpp\<close> and for \<^verbatim>\<open>hook_swap\<close>
  of the simple-blend variant.
\<close>

theorem hook_forwards:
  assumes "reachable st" and "orig st \<noteq> 0"
    and "blend_reachable bst" and "orig_swap bst \<noteq> 0"
  shows "(\<exists>w h st2 st3 r st'.
      w = sint (drv (length (trace st))) \<and> h = sint (drv (Suc (length (trace st))))
    \<and> st2 = emits [eglQuerySurface d s EGL_WIDTH, eglQuerySurface d s EGL_HEIGHT] st
    \<and> (if 100 < w then render drv w h st2 = Inr st3 else st3 = st2)
    \<and> (new_calls st2 st3 = [] \<longleftrightarrow> \<not> 100 < w)
    \<and> filter is_forward (new_calls st2 st3) = []
    \<and> st' = emit (call_original (orig st) d s) st3
    \<and> r = drv (length (trace st3))
    \<and> hook drv d s st = Inr (r, st')
    \<and> trace st' = trace st @ [eglQuerySurface d s EGL_WIDTH, eglQuerySurface d s EGL_HEIGHT]
         @ new_calls st2 st3 @ [call_original (orig st) d s])
   \<and> (\<exists>w h st2 st3 r st'.
      w = sint (drv (length (trace bst))) \<and> h = sint (drv (Suc (length (trace bst))))
    \<and> st2 = emits [eglQuerySurface d s EGL_WIDTH, eglQuerySurface d s EGL_HEIGHT] bst
    \<and> (if 100 < w then render_effect drv w h st2 = Inr st3 else st3 = st2)
    \<and> (new_calls st2 st3 = [] \<longleftrightarrow> \<not> 100 < w)
    \<and> filter is_forward (new_calls st2 st3) = []
    \<and> st' = emit (call_original (orig_swap bst) d s) st3
    \<and> r = drv (length (trace st3))
    \<and> hook_swap drv d s bst = Inr (r, st')
    \<and> trace st' = trace bst @ [eglQuerySurface d s EGL_WIDTH, eglQuerySurface d s EGL_HEIGHT]
         @ new_calls st2 st3 @ [call_original (orig_swap bst) d s])"
proof (rule conjI)
  obtain w h and st2 st3 :: engine and r st' where
    "w = sint (drv (length (trace st)))" "h = sint (drv (Suc (length (trace st))))"
    "st2 = emits [eglQuerySurface d s EGL_WIDTH, eglQuerySurface d s EGL_HEIGHT] st"
    "if 100 < w then render drv w h st2 = Inr st3 else st3 = st2"
    "new_calls st2 st3 = [] \<longleftrightarrow> \<not> 100 < w"
    "filter is_forward (new_calls st2 st3) = []"
    "st' = emit (call_original (orig st) d s) st3"
    "r = drv (length (trace st3))"
    "hook drv d s st = Inr (r, st')"
    "trace st' = trace st @ [eglQuerySurface d s EGL_WIDTH, eglQuerySurface d s EGL_HEIGHT]
         @ new_calls st2 st3 @ [call_original (orig st) d s]"
    using hook_shape [OF reachable_ping [OF assms(1)] assms(2), of drv d s] by blast
  then show "\<exists>w h st2 st3 r st'.
      w = sint (drv (length (trace st))) \<and> h = sint (drv (Suc (length (trace st))))
    \<and> st2 = emits [eglQuerySurface d s EGL_WIDTH, eglQuerySurface d s EGL_HEIGHT] st
    \<and> (if 100 < w then render drv w h st2 = Inr st3 else st3 = st2)
    \<and> (new_calls st2 st3 = [] \<longleftrightarrow> \<not> 100 < w)
    \<and> filter is_forward (new_calls st2 st3) = []
    \<and> st' = emit (call_original (orig st) d s) st3
    \<and> r = drv (length (trace st3))
    \<and> hook drv d s st = Inr (r, st')
    \<and> trace st' = trace st @ [eglQuerySurface d s EGL_WIDTH, eglQuerySurface d s EGL_HEIGHT]
         @ new_calls st2 st3 @ [call_original (orig st) d s]"
    by (intro exI [of _ w] exI [of _ h] exI [of _ st2] exI [of _ st3] exI [of _ r]
        exI [of _ st']) (intro conjI, assumption+)
next
  show "\<exists>w h st2 st3 r st'.
      w = sint (drv (length (trace bst))) \<and> h = sint (drv (Suc (length (trace bst))))
    \<and> st2 = emits [eglQuerySurface d s EGL_WIDTH, eglQuerySurface d s EGL_HEIGHT] bst
    \<and> (if 100 < w then render_effect drv w h st2 = Inr st3 else st3 = st2)
    \<and> (new_calls st2 st3 = [] \<longleftrightarrow> \<not> 100 < w)
    \<and> filter is_forward (new_calls st2 st3) = []
    \<and> st' = emit (call_original (orig_swap bst) d s) st3
    \<and> r = drv (length (trace st3))
    \<and> hook_swap drv d s bst = Inr (r, st')
    \<and> trace st' = trace bst @ [eglQuerySurface d s EGL_WIDTH, eglQuerySurface d s EGL_HEIGHT]
         @ new_calls st2 st3 @ [call_original (orig_swap bst) d s]"
    by (rule hook_swap_shape [OF blend_reachable_index [OF assms(3)] assms(4)])
qed

theorem hook_forwards_witness:
  "reachable installed \<and> orig installed \<noteq> 0
   \<and> blend_reachable blend_installed \<and> orig_swap blend_installed \<noteq> 0
   \<and> fst (projr (hook wide_driver 7 9 installed)) = 1920
   \<and> take 2 (trace (snd (projr (hook wide_driver 7 9 installed)))) =
       [eglQuerySurface 7 9 EGL_WIDTH, eglQuerySurface 7 9 EGL_HEIGHT]
   \<and> last (trace (snd (projr (hook wide_driver 7 9 installed)))) = call_original 1 7 9
   \<and> fst (projr (hook_swap wide_driver 7 9 blend_installed)) = 1920
   \<and> last (trace (snd (projr (hook_swap wide_driver 7 9 blend_installed)))) = call_original 1 7 9
   \<and> hook failing_driver 7 9 installed =
       Inr (0, installed\<lparr>trace := [eglQuerySurface 7 9 EGL_WIDTH, eglQuerySurface 7 9 EGL_HEIGHT,
                                    call_original 1 7 9]\<rparr>)"
proof -
  have a: "orig installed \<noteq> 0" "orig_swap blend_installed \<noteq> 0"
    by (simp_all add: installed_fields blend_installed_fields)
  note w = hook_forwards [OF installed_reachable a(1) blend_installed_reachable a(2),
      of wide_driver 7 9]
  note f = hook_forwards [OF installed_reachable a(1) blend_installed_reachable a(2),
      of failing_driver 7 9]
  have "fst (projr (hook wide_driver 7 9 installed)) = 1920
   \<and> take 2 (trace (snd (projr (hook wide_driver 7 9 installed)))) =
       [eglQuerySurface 7 9 EGL_WIDTH, eglQuerySurface 7 9 EGL_HEIGHT]
   \<and> last (trace (snd (projr (hook wide_driver 7 9 installed)))) = call_original 1 7 9"
    using w [THEN conjunct1]
    by (auto simp: installed_fields wide_driver_def)
  moreover have "fst (projr (hook_swap wide_driver 7 9 blend_installed)) = 1920
   \<and> last (trace (snd (projr (hook_swap wide_driver 7 9 blend_installed)))) = call_original 1 7 9"
    using w [THEN conjunct2]
    by (auto simp: blend_installed_fields wide_driver_def)
  moreover have "hook failing_driver 7 9 installed =
       Inr (0, installed\<lparr>trace := [eglQuerySurface 7 9 EGL_WIDTH, eglQuerySurface 7 9 EGL_HEIGHT,
                                    call_original 1 7 9]\<rparr>)"
    using f [THEN conjunct1]
    by (auto simp: installed_fields failing_driver_def emit_def emits_def new_calls_def)
  ultimately show ?thesis
    using a installed_reachable blend_installed_reachable by simp
qed

section \<open>The first frame of the simple-blend variant\<close>

text \<open>
  What \<^verbatim>\<open>initResources\<close> does: the names it stores are the replies to calls 9, 13 to
  16, 20, 21, 23, 26, 34, 41, 44, 51, 56 and 63 of its 68 calls, counted after the
  release of the old objects.
\<close>

lemma release_old_trace:
  "trace (release_old st) = trace st @
     (if rawTexture st \<noteq> 0
      then [glDeleteTextures [rawTexture st], glDeleteFramebuffers [rawFBO' st],
            glDeleteTextures [fst (historyTextures st), snd (historyTextures st)],
            glDeleteFramebuffers [fst (historyFBOs st), snd (historyFBOs st)],
            glDeleteVertexArrays [vao' st]]
      else [])"
  by (simp add: release_old_def emits_def)

lemma initResources_names:
  "blendProgram (initResources drv w h st) = drv (length (trace (release_old st)) + 9)"
  "locCurrent (initResources drv w h st) = drv (length (trace (release_old st)) + 13)"
  "locHistory (initResources drv w h st) = drv (length (trace (release_old st)) + 14)"
  "locFactor (initResources drv w h st) = drv (length (trace (release_old st)) + 15)"
  "drawProgram (initResources drv w h st) = drv (length (trace (release_old st)) + 16)"
  "locTexture (initResources drv w h st) = drv (length (trace (release_old st)) + 20)"
  "vao' (initResources drv w h st) = drv (length (trace (release_old st)) + 21)"
  "vbo (initResources drv w h st) = drv (length (trace (release_old st)) + 23)"
  "ibo (initResources drv w h st) = drv (length (trace (release_old st)) + 26)"
  "rawTexture (initResources drv w h st) = drv (length (trace (release_old st)) + 34)"
  "rawFBO' (initResources drv w h st) = drv (length (trace (release_old st)) + 41)"
  "historyTextures (initResources drv w h st) =
     (drv (length (trace (release_old st)) + 44), drv (length (trace (release_old st)) + 56))"
  "historyFBOs (initResources drv w h st) =
     (drv (length (trace (release_old st)) + 51), drv (length (trace (release_old st)) + 63))"
  by (simp_all add: initResources_def targets_def t_target_def quad_def link_programs_def
      c_shader_def world_defs eval_nat_numeral)

lemma initResources_calls:
  "new_calls (release_old st) (initResources drv w h st) =
     [glCreateShader GL_VERTEX_SHADER,
      glShaderSource (drv (length (trace (release_old st)))) vertexShaderSource,
      glCompileShader (drv (length (trace (release_old st)))),
      glCreateShader GL_FRAGMENT_SHADER,
      glShaderSource (drv (length (trace (release_old st)) + 3)) smartFragmentShaderSource,
      glCompileShader (drv (length (trace (release_old st)) + 3)),
      glCreateShader GL_FRAGMENT_SHADER,
      glShaderSource (drv (length (trace (release_old st)) + 6)) drawFragmentShaderSource,
      glCompileShader (drv (length (trace (release_old st)) + 6)),
      glCreateProgram,
      glAttachShader (drv (length (trace (release_old st)) + 9)) (drv (length (trace (release_old st)))),
      glAttachShader (drv (length (trace (release_old st)) + 9))
        (drv (length (trace (release_old st)) + 3)),
      glLinkProgram (drv (length (trace (release_old st)) + 9)),
      glGetUniformLocation (drv (length (trace (release_old st)) + 9)) ''uCurrentFrame'',
      glGetUniformLocation (drv (length (trace (release_old st)) + 9)) ''uHistoryFrame'',
      glGetUniformLocation (drv (length (trace (release_old st)) + 9)) ''uBlendFactor'',
      glCreateProgram,
      glAttachShader (drv (length (trace (release_old st)) + 16)) (drv (length (trace (release_old st)))),
      glAttachShader (drv (length (trace (release_old st)) + 16))
        (drv (length (trace (release_old st)) + 6)),
      glLinkProgram (drv (length (trace (release_old st)) + 16)),
      glGetUniformLocation (drv (length (trace (release_old st)) + 16)) ''uTexture'',
      glGenVertexArrays,
      glBindVertexArray (drv (length (trace (release_old st)) + 21)),
      glGenBuffers,
      glBindBuffer GL_ARRAY_BUFFER (drv (length (trace (release_old st)) + 23)),
      glBufferData GL_ARRAY_BUFFER 64 (vertex_floats quad_d),
      glGenBuffers,
      glBindBuffer GL_ELEMENT_ARRAY_BUFFER (drv (length (trace (release_old st)) + 26)),
      glBufferData GL_ELEMENT_ARRAY_BUFFER 12 (index_shorts quad_i),
      glEnableVertexAttribArray 0, glVertexAttribPointer 0 2 16 0,
      glEnableVertexAttribArray 1, glVertexAttribPointer 1 2 16 8,
      glBindVertexArray 0,
      glGenTextures,
      glBindTexture (drv (length (trace (release_old st)) + 34)),
      glTexImage2D (scaled w) (scaled h),
      glTexParameteri GL_TEXTURE_MIN_FILTER GL_LINEAR,
      glTexParameteri GL_TEXTURE_MAG_FILTER GL_LINEAR,
      glTexParameteri GL_TEXTURE_WRAP_S GL_CLAMP_TO_EDGE,
      glTexParameteri GL_TEXTURE_WRAP_T GL_CLAMP_TO_EDGE,
      glGenFramebuffers,
      glBindFramebuffer GL_FRAMEBUFFER (drv (length (trace (release_old st)) + 41)),
      glFramebufferTexture2D (drv (length (trace (release_old st)) + 34)),
      glGenTextures,
      glBindTexture (drv (length (trace (release_old st)) + 44)),
      glTexImage2D (scaled w) (scaled h),
      glTexParameteri GL_TEXTURE_MIN_FILTER GL_LINEAR,
      glTexParameteri GL_TEXTURE_MAG_FILTER GL_LINEAR,
      glTexParameteri GL_TEXTURE_WRAP_S GL_CLAMP_TO_EDGE,
      glTexParameteri GL_TEXTURE_WRAP_T GL_CLAMP_TO_EDGE,
      glGenFramebuffers,
      glBindFramebuffer GL_FRAMEBUFFER (drv (length (trace (release_old st)) + 51)),
      glFramebufferTexture2D (drv (length (trace (release_old st)) + 44)),
      glClearColor 0 0 0 0, glClear,
      glGenTextures,
      glBindTexture (drv (length (trace (release_old st)) + 56)),
      glTexImage2D (scaled w) (scaled h),
      glTexParameteri GL_TEXTURE_MIN_FILTER GL_LINEAR,
      glTexParameteri GL_TEXTURE_MAG_FILTER GL_LINEAR,
      glTexParameteri GL_TEXTURE_WRAP_S GL_CLAMP_TO_EDGE,
      glTexParameteri GL_TEXTURE_WRAP_T GL_CLAMP_TO_EDGE,
      glGenFramebuffers,
      glBindFramebuffer GL_FRAMEBUFFER (drv (length (trace (release_old st)) + 63)),
      glFramebufferTexture2D (drv (length (trace (release_old st)) + 56)),
      glClearColor 0 0 0 0, glClear]"
  by (simp add: initResources_def targets_def t_target_def quad_def link_programs_def
      c_shader_def world_defs new_calls_def eval_nat_numeral)

lemma initResources_length:
  "length (trace (initResources drv w h st)) = length (trace (release_old st)) + 68"
  by (simp add: initResources_def targets_def t_target_def quad_def link_programs_def
      c_shader_def world_defs)

lemma render_effect_names:
  assumes "render_effect drv w h st = Inr st'"
  shows "rawFBO' st' = rawFBO' (check_size drv w h st)"
    and "historyTextures st' = historyTextures (check_size drv w h st)"
    and "historyFBOs st' = historyFBOs (check_size drv w h st)"
    and "vao' st' = vao' (check_size drv w h st)"
    and "locCurrent st' = locCurrent (check_size drv w h st)"
    and "locHistory st' = locHistory (check_size drv w h st)"
    and "locFactor st' = locFactor (check_size drv w h st)"
    and "locTexture st' = locTexture (check_size drv w h st)"
    and "internalW st' = internalW (check_size drv w h st)"
    and "internalH st' = internalH (check_size drv w h st)"
  using assms
  by (auto simp: render_effect_def apply_blur_def world_defs check_size_fields
      split: option.splits if_splits sum.splits)

lemma render_effect_length:
  assumes "render_effect drv w h st = Inr st'"
  shows "length (trace st') = length (trace (check_size drv w h st))
      + (if isFirstFrame (check_size drv w h st) then 23 else 27)"
  using render_effect_trace [OF assms] render_effect_calls [OF assms] by simp

lemma blend_reachable_first:
  "blend_reachable st \<Longrightarrow> isFirstFrame st \<Longrightarrow> rawTexture st = 0"
proof (induction rule: blend_reachable.induct)
  case (blend_start a)
  show ?case by (simp add: init_blend_engine_def)
next
  case (blend_frame st drv w h st')
  then show ?case using render_effect_fields(3) [OF blend_frame.hyps(2)] by simp
next
  case (blend_present st drv d s r st')
  show ?case
  proof (cases "orig_swap st = 0")
    case True
    then show ?thesis using blend_present by (simp add: hook_swap_unfold)
  next
    case False
    obtain w h and st2 st3 :: blend_engine and r' st'' where
        a: "st2 = emits [eglQuerySurface d s EGL_WIDTH, eglQuerySurface d s EGL_HEIGHT] st"
        and b: "if 100 < w then render_effect drv w h st2 = Inr st3 else st3 = st2"
        and c: "st'' = emit (call_original (orig_swap st) d s) st3"
        and k: "hook_swap drv d s st = Inr (r', st'')"
      using hook_swap_shape [OF blend_reachable_index [OF blend_present.hyps(1)] False, of drv d s]
      by blast
    have e: "st'' = st'" using k blend_present.hyps(2) by simp
    have f: "isFirstFrame st3" using blend_present.prems c e by (simp add: emit_def)
    have nr: "\<not> 100 < w"
    proof
      assume "100 < w"
      then have "render_effect drv w h st2 = Inr st3" using b by simp
      then show False using render_effect_fields(3) f by blast
    qed
    then have "st3 = st2" using b by simp
    then have "isFirstFrame st" "rawTexture st' = rawTexture st"
      using f a c e by (simp_all add: emit_def emits_def)
    then show ?thesis using blend_present.IH by simp
  qed
qed

text \<open>
  In a reachable state the flag is set only while \<^verbatim>\<open>rawTexture\<close> is 0; hence a frame
  takes the first-frame branch exactly when its size check initializes.
\<close>

lemma first_frame_iff:
  assumes "blend_reachable st"
  shows "isFirstFrame (check_size drv w h st) \<longleftrightarrow>
      (w \<noteq> savedWidth st \<or> h \<noteq> savedHeight st \<or> rawTexture st = 0)"
proof (cases "w \<noteq> savedWidth st \<or> h \<noteq> savedHeight st \<or> rawTexture st = 0")
  case True
  then show ?thesis using check_size_first(1) [of w st h drv] by simp
next
  case False
  then have c: "check_size drv w h st = st" by (rule check_size_first(2))
  have "rawTexture st \<noteq> 0" using False by simp
  then have "\<not> isFirstFrame st" using blend_reachable_first [OF assms] by blast
  then show ?thesis using False c by simp
qed

text \<open>The calls of a frame after the size check, for each value of the flag.\<close>

lemma first_frame_calls:
  assumes r: "render_effect drv w h st = Inr st1"
    and f: "isFirstFrame (check_size drv w h st)"
  shows "new_calls (check_size drv w h st) st1 =
      [glGetFramebufferBinding,
       glDisable GL_SCISSOR_TEST, glDisable GL_DEPTH_TEST, glDisable GL_BLEND,
       glBindFramebuffer GL_READ_FRAMEBUFFER 0,
       glBindFramebuffer GL_DRAW_FRAMEBUFFER (rawFBO' (check_size drv w h st)),
       glBlitFramebuffer 0 0 w h 0 0 (internalW (check_size drv w h st))
         (internalH (check_size drv w h st)),
       glBindVertexArray (vao' (check_size drv w h st)),
       glViewport 0 0 (internalW (check_size drv w h st)) (internalH (check_size drv w h st)),
       glBindFramebuffer GL_FRAMEBUFFER
         (if pingPongIndex st = 0 then fst (historyFBOs (check_size drv w h st))
          else snd (historyFBOs (check_size drv w h st))),
       glUseProgram (drawProgram (check_size drv w h st)),
       glActiveTexture 0, glBindTexture (rawTexture (check_size drv w h st)),
       glUniform1i (locTexture (check_size drv w h st)) 0,
       glDrawElements 6,
       glBindFramebuffer GL_FRAMEBUFFER 0, glViewport 0 0 w h,
       glUseProgram (drawProgram (check_size drv w h st)),
       glActiveTexture 0,
       glBindTexture
         (if pingPongIndex st = 0 then fst (historyTextures (check_size drv w h st))
          else snd (historyTextures (check_size drv w h st))),
       glUniform1i (locTexture (check_size drv w h st)) 0,
       glDrawElements 6,
       glBindVertexArray 0]"
  using render_effect_calls [OF r] render_effect_index [OF r] f by (auto simp: at2_def)

lemma blend_frame_calls:
  assumes r: "render_effect drv w h st = Inr st1"
    and f: "\<not> isFirstFrame (check_size drv w h st)"
  shows "new_calls (check_size drv w h st) st1 =
      [glGetFramebufferBinding,
       glDisable GL_SCISSOR_TEST, glDisable GL_DEPTH_TEST, glDisable GL_BLEND,
       glBindFramebuffer GL_READ_FRAMEBUFFER 0,
       glBindFramebuffer GL_DRAW_FRAMEBUFFER (rawFBO' (check_size drv w h st)),
       glBlitFramebuffer 0 0 w h 0 0 (internalW (check_size drv w h st))
         (internalH (check_size drv w h st)),
       glBindVertexArray (vao' (check_size drv w h st)),
       glViewport 0 0 (internalW (check_size drv w h st)) (internalH (check_size drv w h st)),
       glBindFramebuffer GL_FRAMEBUFFER
         (if pingPongIndex st = 0 then fst (historyFBOs (check_size drv w h st))
          else snd (historyFBOs (check_size drv w h st))),
       glUseProgram (blendProgram (check_size drv w h st)),
       glActiveTexture 0, glBindTexture (rawTexture (check_size drv w h st)),
       glUniform1i (locCurrent (check_size drv w h st)) 0,
       glActiveTexture 1,
       glBindTexture
         (if pingPongIndex st = 0 then snd (historyTextures (check_size drv w h st))
          else fst (historyTextures (check_size drv w h st))),
       glUniform1i (locHistory (check_size drv w h st)) 1,
       glUniform1f (locFactor (check_size drv w h st)) BLUR_STRENGTH,
       glDrawElements 6,
       glBindFramebuffer GL_FRAMEBUFFER 0, glViewport 0 0 w h,
       glUseProgram (drawProgram (check_size drv w h st)),
       glActiveTexture 0,
       glBindTexture
         (if pingPongIndex st = 0 then fst (historyTextures (check_size drv w h st))
          else snd (historyTextures (check_size drv w h st))),
       glUniform1i (locTexture (check_size drv w h st)) 0,
       glDrawElements 6,
       glBindVertexArray 0]"
  using render_effect_calls [OF r] render_effect_index [OF r] f by (auto simp: at2_def)

lemma later_at_keeps:
  assumes "later_at w h st1 st2"
    and "\<not> isFirstFrame st1" and "savedWidth st1 = w" and "savedHeight st1 = h"
    and "rawTexture st1 \<noteq> 0"
  shows "\<not> isFirstFrame st2 \<and> savedWidth st2 = w \<and> savedHeight st2 = h
     \<and> rawTexture st2 = rawTexture st1 \<and> rawFBO' st2 = rawFBO' st1
     \<and> historyTextures st2 = historyTextures st1 \<and> historyFBOs st2 = historyFBOs st1
     \<and> vao' st2 = vao' st1 \<and> blendProgram st2 = blendProgram st1
     \<and> drawProgram st2 = drawProgram st1 \<and> locCurrent st2 = locCurrent st1
     \<and> locHistory st2 = locHistory st1 \<and> locFactor st2 = locFactor st1
     \<and> locTexture st2 = locTexture st1 \<and> internalW st2 = internalW st1
     \<and> internalH st2 = internalH st1"
  using assms
proof (induction rule: later_at.induct)
  case later_now
  then show ?case by simp
next
  case (later_frame st' drv st'')
  have k: "\<not> isFirstFrame st'" "savedWidth st' = w" "savedHeight st' = h"
      "rawTexture st' = rawTexture st1" "rawFBO' st' = rawFBO' st1"
      "historyTextures st' = historyTextures st1" "historyFBOs st' = historyFBOs st1"
      "vao' st' = vao' st1" "blendProgram st' = blendProgram st1"
      "drawProgram st' = drawProgram st1" "locCurrent st' = locCurrent st1"
      "locHistory st' = locHistory st1" "locFactor st' = locFactor st1"
      "locTexture st' = locTexture st1" "internalW st' = internalW st1"
      "internalH st' = internalH st1"
    using later_frame.IH later_frame.prems by simp_all
  have c: "check_size drv w h st' = st'"
    using k(2,3,4) later_frame.prems(4) by (simp add: check_size_first(2))
  show ?case
    using render_effect_fields [OF later_frame.hyps(2)] render_effect_names [OF later_frame.hyps(2)]
    unfolding c k by simp
qed

text \<open>Two frames at 200 by 200 under the driver that leaves the raw texture at 0.\<close>

lemma blend_installed_release: "release_old blend_installed = blend_installed"
  by (simp add: release_old_def blend_installed_fields)

lemma lost_first_render:
  "render_effect textureless_driver 200 200 blend_installed = Inr lost_first"
proof -
  obtain st' where "render_effect textureless_driver 200 200 blend_installed = Inr st'"
    using render_effect_ok [of blend_installed textureless_driver 200 200] blend_installed_fields
    by auto
  then show ?thesis by (simp add: lost_first_def)
qed

lemma lost_first_init:
  "check_size textureless_driver 200 200 blend_installed =
     initResources textureless_driver 200 200 blend_installed"
  by (simp add: check_size_def blend_installed_fields)

lemma lost_first_fields:
  "rawTexture lost_first = 0" "\<not> isFirstFrame lost_first"
  "savedWidth lost_first = 200" "savedHeight lost_first = 200"
  "pingPongIndex lost_first = 1" "length (trace lost_first) = 91"
  using render_effect_fields [OF lost_first_render] render_effect_length [OF lost_first_render]
  unfolding lost_first_init
  by (simp_all add: initResources_names initResources_length initResources_fields
      blend_installed_release blend_installed_fields textureless_driver_def)

lemma lost_first_release: "release_old lost_first = lost_first"
  by (simp add: release_old_def lost_first_fields)

lemma lost_second_render:
  "render_effect textureless_driver 200 200 lost_first = Inr lost_second"
proof -
  obtain st' where "render_effect textureless_driver 200 200 lost_first = Inr st'"
    using render_effect_ok [of lost_first textureless_driver 200 200] lost_first_fields
    by auto
  then show ?thesis by (simp add: lost_second_def)
qed

lemma lost_second_init:
  "check_size textureless_driver 200 200 lost_first =
     initResources textureless_driver 200 200 lost_first"
  by (simp add: check_size_def lost_first_fields)

lemma lost_second_names:
  "blendProgram (initResources textureless_driver 200 200 lost_first) = 101"
  "drawProgram (initResources textureless_driver 200 200 lost_first) = 108"
  "locTexture (initResources textureless_driver 200 200 lost_first) = 112"
  "vao' (initResources textureless_driver 200 200 lost_first) = 113"
  "rawTexture (initResources textureless_driver 200 200 lost_first) = 0"
  "rawFBO' (initResources textureless_driver 200 200 lost_first) = 133"
  "historyTextures (initResources textureless_driver 200 200 lost_first) = (136, 148)"
  "historyFBOs (initResources textureless_driver 200 200 lost_first) = (143, 155)"
  by (simp_all add: initResources_names lost_first_release lost_first_fields
      textureless_driver_def)

text \<open>
  C10, as the claim states it: the first render call after a (re)initialization uses
  the plain draw program only and clears the first-frame flag, so every subsequent
  render call at that size uses the blend program. \<^verbatim>\<open>render_effect\<close> initializes not
  only when the size changes but also whenever \<^verbatim>\<open>rawTexture\<close> is 0, and a driver can
  leave that name at 0. Under such a driver the first frame at 200 by 200 clears the
  flag, and the second call at 200 by 200 initializes again (the first 68 of its 91
  calls) and takes the first-frame branch again: it binds the draw program, 108, and
  nowhere the blend program, 101.
\<close>

theorem first_frame_bypass_counterexample:
  "render_effect textureless_driver 200 200 blend_installed = Inr lost_first
   \<and> \<not> isFirstFrame lost_first
   \<and> savedWidth lost_first = 200 \<and> savedHeight lost_first = 200
   \<and> render_effect textureless_driver 200 200 lost_first = Inr lost_second
   \<and> blendProgram lost_second = 101 \<and> drawProgram lost_second = 108
   \<and> length (new_calls lost_first lost_second) = 91
   \<and> drop 68 (new_calls lost_first lost_second) =
       [glGetFramebufferBinding,
        glDisable GL_SCISSOR_TEST, glDisable GL_DEPTH_TEST, glDisable GL_BLEND,
        glBindFramebuffer GL_READ_FRAMEBUFFER 0,
        glBindFramebuffer GL_DRAW_FRAMEBUFFER 133,
        glBlitFramebuffer 0 0 200 200 0 0 100 100,
        glBindVertexArray 113,
        glViewport 0 0 100 100,
        glBindFramebuffer GL_FRAMEBUFFER 155,
        glUseProgram 108,
        glActiveTexture 0, glBindTexture 0,
        glUniform1i 112 0,
        glDrawElements 6,
        glBindFramebuffer GL_FRAMEBUFFER 0, glViewport 0 0 200 200,
        glUseProgram 108,
        glActiveTexture 0, glBindTexture 148,
        glUniform1i 112 0,
        glDrawElements 6,
        glBindVertexArray 0]
   \<and> glUseProgram 101 \<notin> set (new_calls lost_first lost_second)"
proof -
  let ?s = "initResources textureless_driver 200 200 lost_first"
  have first: "isFirstFrame (check_size textureless_driver 200 200 lost_first)"
    unfolding lost_second_init by (rule initResources_fields(3))
  have a: "new_calls ?s lost_second =
       [glGetFramebufferBinding,
        glDisable GL_SCISSOR_TEST, glDisable GL_DEPTH_TEST, glDisable GL_BLEND,
        glBindFramebuffer GL_READ_FRAMEBUFFER 0,
        glBindFramebuffer GL_DRAW_FRAMEBUFFER 133,
        glBlitFramebuffer 0 0 200 200 0 0 100 100,
        glBindVertexArray 113,
        glViewport 0 0 100 100,
        glBindFramebuffer GL_FRAMEBUFFER 155,
        glUseProgram 108,
        glActiveTexture 0, glBindTexture 0,
        glUniform1i 112 0,
        glDrawElements 6,
        glBindFramebuffer GL_FRAMEBUFFER 0, glViewport 0 0 200 200,
        glUseProgram 108,
        glActiveTexture 0, glBindTexture 148,
        glUniform1i 112 0,
        glDrawElements 6,
        glBindVertexArray 0]"
    using first_frame_calls [OF lost_second_render first]
    unfolding lost_second_init
    by (simp add: lost_second_names initResources_fields lost_first_fields scaled_values)
  have i: "new_calls lost_first ?s =
      new_calls (release_old lost_first) (initResources textureless_driver 200 200 lost_first)"
    by (simp add: lost_first_release)
  have t: "trace lost_second = trace lost_first @ (new_calls lost_first ?s @ new_calls ?s lost_second)"
    using render_effect_trace [OF lost_second_render] check_size_trace [of textureless_driver 200 200 lost_first]
    unfolding lost_second_init by simp
  have n: "new_calls lost_first lost_second = new_calls lost_first ?s @ new_calls ?s lost_second"
    using new_calls_append [OF t] .
  have l: "length (new_calls lost_first ?s) = 68" unfolding i by (simp add: initResources_calls)
  have u: "glUseProgram 101 \<notin> set (new_calls lost_first ?s)"
    unfolding i by (simp add: initResources_calls)
  have p: "blendProgram lost_second = 101" "drawProgram lost_second = 108"
    using render_effect_fields(7,8) [OF lost_second_render]
    unfolding lost_second_init by (simp_all add: lost_second_names)
  show ?thesis
    unfolding n using l u a p lost_first_render lost_second_render lost_first_fields
    by simp
qed

text \<open>
  C10, amended: in a reachable state, a render call that (re)initializes (the size
  differs from the saved one, or \<^verbatim>\<open>rawTexture\<close> is 0) returns, and in it
  \<^verbatim>\<open>initResources\<close> sets the first-frame flag and stores the names the driver hands
  out during its 68 calls; the frame that follows is the 23 calls listed: its
  accumulation step binds the current history framebuffer, uses the draw program and
  samples the raw texture only; the flag is cleared and the ping index flipped. If the
  name of the raw texture is not 0, then after any number of further calls at that
  size, under any drivers, a call at that size does not initialize and is the 27 calls
  listed: the blend program, the raw texture on unit 0, the other history texture on
  unit 1, the factor \<^verbatim>\<open>BLUR_STRENGTH\<close>. If the name is 0, the next call at that size
  initializes again and has the flag set again.
\<close>

theorem first_frame_then_blend:
  assumes "blend_reachable st"
    and "w \<noteq> savedWidth st \<or> h \<noteq> savedHeight st \<or> rawTexture st = 0"
  shows "\<exists>st1. render_effect drv w h st = Inr st1
     \<and> (let n = length (trace (release_old st)); s = initResources drv w h st;
             i = pingPongIndex st
         in check_size drv w h st = s \<and> isFirstFrame s
          \<and> length (new_calls (release_old st) s) = 68
          \<and> blendProgram s = drv (n + 9) \<and> locCurrent s = drv (n + 13)
          \<and> locHistory s = drv (n + 14) \<and> locFactor s = drv (n + 15)
          \<and> drawProgram s = drv (n + 16) \<and> locTexture s = drv (n + 20)
          \<and> vao' s = drv (n + 21) \<and> rawTexture s = drv (n + 34) \<and> rawFBO' s = drv (n + 41)
          \<and> historyTextures s = (drv (n + 44), drv (n + 56))
          \<and> historyFBOs s = (drv (n + 51), drv (n + 63))
          \<and> (i = 0 \<or> i = 1)
          \<and> new_calls s st1 =
              [glGetFramebufferBinding,
               glDisable GL_SCISSOR_TEST, glDisable GL_DEPTH_TEST, glDisable GL_BLEND,
               glBindFramebuffer GL_READ_FRAMEBUFFER 0,
               glBindFramebuffer GL_DRAW_FRAMEBUFFER (rawFBO' s),
               glBlitFramebuffer 0 0 w h 0 0 (scaled w) (scaled h),
               glBindVertexArray (vao' s),
               glViewport 0 0 (scaled w) (scaled h),
               glBindFramebuffer GL_FRAMEBUFFER
                 (if i = 0 then fst (historyFBOs s) else snd (historyFBOs s)),
               glUseProgram (drawProgram s),
               glActiveTexture 0, glBindTexture (rawTexture s),
               glUniform1i (locTexture s) 0,
               glDrawElements 6,
               glBindFramebuffer GL_FRAMEBUFFER 0, glViewport 0 0 w h,
               glUseProgram (drawProgram s),
               glActiveTexture 0,
               glBindTexture (if i = 0 then fst (historyTextures s) else snd (historyTextures s)),
               glUniform1i (locTexture s) 0,
               glDrawElements 6,
               glBindVertexArray 0]
          \<and> \<not> isFirstFrame st1 \<and> pingPongIndex st1 = 1 - i
          \<and> rawTexture st1 = rawTexture s
          \<and> (rawTexture s = 0 \<longrightarrow>
               (\<forall>drv'. check_size drv' w h st1 = initResources drv' w h st1
                     \<and> isFirstFrame (check_size drv' w h st1)))
          \<and> (rawTexture s \<noteq> 0 \<longrightarrow>
               (\<forall>st2 drv'. later_at w h st1 st2 \<longrightarrow>
                  (\<exists>st3. render_effect drv' w h st2 = Inr st3
                     \<and> check_size drv' w h st2 = st2 \<and> \<not> isFirstFrame st2
                     \<and> (pingPongIndex st2 = 0 \<or> pingPongIndex st2 = 1)
                     \<and> new_calls st2 st3 =
                         [glGetFramebufferBinding,
                          glDisable GL_SCISSOR_TEST, glDisable GL_DEPTH_TEST, glDisable GL_BLEND,
                          glBindFramebuffer GL_READ_FRAMEBUFFER 0,
                          glBindFramebuffer GL_DRAW_FRAMEBUFFER (rawFBO' s),
                          glBlitFramebuffer 0 0 w h 0 0 (scaled w) (scaled h),
                          glBindVertexArray (vao' s),
                          glViewport 0 0 (scaled w) (scaled h),
                          glBindFramebuffer GL_FRAMEBUFFER
                            (if pingPongIndex st2 = 0 then fst (historyFBOs s)
                             else snd (historyFBOs s)),
                          glUseProgram (blendProgram s),
                          glActiveTexture 0, glBindTexture (rawTexture s),
                          glUniform1i (locCurrent s) 0,
                          glActiveTexture 1,
                          glBindTexture
                            (if pingPongIndex st2 = 0 then snd (historyTextures s)
                             else fst (historyTextures s)),
                          glUniform1i (locHistory s) 1,
                          glUniform1f (locFactor s) BLUR_STRENGTH,
                          glDrawElements 6,
                          glBindFramebuffer GL_FRAMEBUFFER 0, glViewport 0 0 w h,
                          glUseProgram (drawProgram s),
                          glActiveTexture 0,
                          glBindTexture
                            (if pingPongIndex st2 = 0 then fst (historyTextures s)
                             else snd (historyTextures s)),
                          glUniform1i (locTexture s) 0,
                          glDrawElements 6,
                          glBindVertexArray 0]))))"
proof -
  let ?s = "initResources drv w h st"
  have cs: "check_size drv w h st = ?s" using assms(2) by (auto simp: check_size_def)
  have i: "pingPongIndex st = 0 \<or> pingPongIndex st = 1"
    using blend_reachable_index [OF assms(1)] .
  obtain st1 where r: "render_effect drv w h st = Inr st1"
    using render_effect_ok [OF i] by blast
  have first: "isFirstFrame ?s" by (rule initResources_fields(3))
  have len: "length (new_calls (release_old st) ?s) = 68"
    by (simp add: initResources_calls)
  have calls: "new_calls ?s st1 =
      [glGetFramebufferBinding,
       glDisable GL_SCISSOR_TEST, glDisable GL_DEPTH_TEST, glDisable GL_BLEND,
       glBindFramebuffer GL_READ_FRAMEBUFFER 0,
       glBindFramebuffer GL_DRAW_FRAMEBUFFER (rawFBO' ?s),
       glBlitFramebuffer 0 0 w h 0 0 (scaled w) (scaled h),
       glBindVertexArray (vao' ?s),
       glViewport 0 0 (scaled w) (scaled h),
       glBindFramebuffer GL_FRAMEBUFFER
         (if pingPongIndex st = 0 then fst (historyFBOs ?s) else snd (historyFBOs ?s)),
       glUseProgram (drawProgram ?s),
       glActiveTexture 0, glBindTexture (rawTexture ?s),
       glUniform1i (locTexture ?s) 0,
       glDrawElements 6,
       glBindFramebuffer GL_FRAMEBUFFER 0, glViewport 0 0 w h,
       glUseProgram (drawProgram ?s),
       glActiveTexture 0,
       glBindTexture (if pingPongIndex st = 0 then fst (historyTextures ?s) else snd (historyTextures ?s)),
       glUniform1i (locTexture ?s) 0,
       glDrawElements 6,
       glBindVertexArray 0]"
    using first_frame_calls [OF r] first unfolding cs initResources_fields(6,7) by simp
  note f1 = render_effect_fields [OF r, unfolded cs]
  note n1 = render_effect_names [OF r, unfolded cs initResources_fields(6,7)]
  have zero: "rawTexture ?s = 0 \<longrightarrow>
      (\<forall>drv'. check_size drv' w h st1 = initResources drv' w h st1
                     \<and> isFirstFrame (check_size drv' w h st1))"
    using f1(6) by (simp add: check_size_def initResources_fields(3))
  have later: "rawTexture ?s \<noteq> 0 \<longrightarrow> (\<forall>st2 drv'. later_at w h st1 st2 \<longrightarrow>
                  (\<exists>st3. render_effect drv' w h st2 = Inr st3
                     \<and> check_size drv' w h st2 = st2 \<and> \<not> isFirstFrame st2
                     \<and> (pingPongIndex st2 = 0 \<or> pingPongIndex st2 = 1)
                     \<and> new_calls st2 st3 =
                         [glGetFramebufferBinding,
                          glDisable GL_SCISSOR_TEST, glDisable GL_DEPTH_TEST, glDisable GL_BLEND,
                          glBindFramebuffer GL_READ_FRAMEBUFFER 0,
                          glBindFramebuffer GL_DRAW_FRAMEBUFFER (rawFBO' ?s),
                          glBlitFramebuffer 0 0 w h 0 0 (scaled w) (scaled h),
                          glBindVertexArray (vao' ?s),
                          glViewport 0 0 (scaled w) (scaled h),
                          glBindFramebuffer GL_FRAMEBUFFER
                            (if pingPongIndex st2 = 0 then fst (historyFBOs ?s)
                             else snd (historyFBOs ?s)),
                          glUseProgram (blendProgram ?s),
                          glActiveTexture 0, glBindTexture (rawTexture ?s),
                          glUniform1i (locCurrent ?s) 0,
                          glActiveTexture 1,
                          glBindTexture
                            (if pingPongIndex st2 = 0 then snd (historyTextures ?s)
                             else fst (historyTextures ?s)),
                          glUniform1i (locHistory ?s) 1,
                          glUniform1f (locFactor ?s) BLUR_STRENGTH,
                          glDrawElements 6,
                          glBindFramebuffer GL_FRAMEBUFFER 0, glViewport 0 0 w h,
                          glUseProgram (drawProgram ?s),
                          glActiveTexture 0,
                          glBindTexture
                            (if pingPongIndex st2 = 0 then fst (historyTextures ?s)
                             else snd (historyTextures ?s)),
                          glUniform1i (locTexture ?s) 0,
                          glDrawElements 6,
                          glBindVertexArray 0]))"
  proof (intro impI allI)
    fix st2 drv'
    assume nz: "rawTexture ?s \<noteq> 0" and l: "later_at w h st1 st2"
    have nz1: "rawTexture st1 \<noteq> 0" using nz f1(6) by simp
    note k = later_at_keeps [OF l f1(3) f1(4) f1(5) nz1]
    have reach: "blend_reachable st2"
      using l
    proof (induction rule: later_at.induct)
      case later_now
      show ?case using blend_reachable.blend_frame [OF assms(1) r] .
    next
      case (later_frame st' drv st'')
      show ?case using blend_reachable.blend_frame [OF later_frame.IH later_frame.hyps(2)] .
    qed
    have j: "pingPongIndex st2 = 0 \<or> pingPongIndex st2 = 1"
      using blend_reachable_index [OF reach] .
    obtain st3 where r3: "render_effect drv' w h st2 = Inr st3"
      using render_effect_ok [OF j] by blast
    have c: "check_size drv' w h st2 = st2"
      using k nz1 by (simp add: check_size_first(2))
    have nf: "\<not> isFirstFrame (check_size drv' w h st2)" using k c by simp
    show "\<exists>st3. render_effect drv' w h st2 = Inr st3
                     \<and> check_size drv' w h st2 = st2 \<and> \<not> isFirstFrame st2
                     \<and> (pingPongIndex st2 = 0 \<or> pingPongIndex st2 = 1)
                     \<and> new_calls st2 st3 =
                         [glGetFramebufferBinding,
                          glDisable GL_SCISSOR_TEST, glDisable GL_DEPTH_TEST, glDisable GL_BLEND,
                          glBindFramebuffer GL_READ_FRAMEBUFFER 0,
                          glBindFramebuffer GL_DRAW_FRAMEBUFFER (rawFBO' ?s),
                          glBlitFramebuffer 0 0 w h 0 0 (scaled w) (scaled h),
                          glBindVertexArray (vao' ?s),
                          glViewport 0 0 (scaled w) (scaled h),
                          glBindFramebuffer GL_FRAMEBUFFER
                            (if pingPongIndex st2 = 0 then fst (historyFBOs ?s)
                             else snd (historyFBOs ?s)),
                          glUseProgram (blendProgram ?s),
                          glActiveTexture 0, glBindTexture (rawTexture ?s),
                          glUniform1i (locCurrent ?s) 0,
                          glActiveTexture 1,
                          glBindTexture
                            (if pingPongIndex st2 = 0 then snd (historyTextures ?s)
                             else fst (historyTextures ?s)),
                          glUniform1i (locHistory ?s) 1,
                          glUniform1f (locFactor ?s) BLUR_STRENGTH,
                          glDrawElements 6,
                          glBindFramebuffer GL_FRAMEBUFFER 0, glViewport 0 0 w h,
                          glUseProgram (drawProgram ?s),
                          glActiveTexture 0,
                          glBindTexture
                            (if pingPongIndex st2 = 0 then fst (historyTextures ?s)
                             else snd (historyTextures ?s)),
                          glUniform1i (locTexture ?s) 0,
                          glDrawElements 6,
                          glBindVertexArray 0]"
      using blend_frame_calls [OF r3 nf] r3 j k unfolding c
      by (simp add: f1 n1)
  qed
  show ?thesis
    unfolding Let_def
    by (intro exI [of _ st1] conjI)
      (rule r cs first len initResources_names i calls f1(3) f1(1) f1(6) zero later)+
qed

theorem first_frame_then_blend_witness:
  "blend_reachable blend_installed \<and> rawTexture blend_installed = 0
   \<and> render_effect seq_driver 200 200 blend_installed = Inr blend_first
   \<and> isFirstFrame (initResources seq_driver 200 200 blend_installed)
   \<and> blendProgram blend_first = 10 \<and> drawProgram blend_first = 17
   \<and> new_calls (initResources seq_driver 200 200 blend_installed) blend_first =
       [glGetFramebufferBinding,
        glDisable GL_SCISSOR_TEST, glDisable GL_DEPTH_TEST, glDisable GL_BLEND,
        glBindFramebuffer GL_READ_FRAMEBUFFER 0,
        glBindFramebuffer GL_DRAW_FRAMEBUFFER 42,
        glBlitFramebuffer 0 0 200 200 0 0 100 100,
        glBindVertexArray 22,
        glViewport 0 0 100 100,
        glBindFramebuffer GL_FRAMEBUFFER 52,
        glUseProgram 17,
        glActiveTexture 0, glBindTexture 35,
        glUniform1i 21 0,
        glDrawElements 6,
        glBindFramebuffer GL_FRAMEBUFFER 0, glViewport 0 0 200 200,
        glUseProgram 17,
        glActiveTexture 0, glBindTexture 45,
        glUniform1i 21 0,
        glDrawElements 6,
        glBindVertexArray 0]
   \<and> \<not> isFirstFrame blend_first \<and> rawTexture blend_first = 35
   \<and> render_effect seq_driver 200 200 blend_first = Inr blend_second
   \<and> new_calls blend_first blend_second =
       [glGetFramebufferBinding,
        glDisable GL_SCISSOR_TEST, glDisable GL_DEPTH_TEST, glDisable GL_BLEND,
        glBindFramebuffer GL_READ_FRAMEBUFFER 0,
        glBindFramebuffer GL_DRAW_FRAMEBUFFER 42,
        glBlitFramebuffer 0 0 200 200 0 0 100 100,
        glBindVertexArray 22,
        glViewport 0 0 100 100,
        glBindFramebuffer GL_FRAMEBUFFER 64,
        glUseProgram 10,
        glActiveTexture 0, glBindTexture 35,
        glUniform1i 14 0,
        glActiveTexture 1, glBindTexture 45,
        glUniform1i 15 1,
        glUniform1f 16 BLUR_STRENGTH,
        glDrawElements 6,
        glBindFramebuffer GL_FRAMEBUFFER 0, glViewport 0 0 200 200,
        glUseProgram 17,
        glActiveTexture 0, glBindTexture 57,
        glUniform1i 21 0,
        glDrawElements 6,
        glBindVertexArray 0]
   \<and> later_at 200 200 blend_first blend_second
   \<and> render_effect seq_driver 200 200 blend_second = Inr blend_third
   \<and> new_calls blend_second blend_third =
       [glGetFramebufferBinding,
        glDisable GL_SCISSOR_TEST, glDisable GL_DEPTH_TEST, glDisable GL_BLEND,
        glBindFramebuffer GL_READ_FRAMEBUFFER 0,
        glBindFramebuffer GL_DRAW_FRAMEBUFFER 42,
        glBlitFramebuffer 0 0 200 200 0 0 100 100,
        glBindVertexArray 22,
        glViewport 0 0 100 100,
        glBindFramebuffer GL_FRAMEBUFFER 52,
        glUseProgram 10,
        glActiveTexture 0, glBindTexture 35,
        glUniform1i 14 0,
        glActiveTexture 1, glBindTexture 57,
        glUniform1i 15 1,
        glUniform1f 16 BLUR_STRENGTH,
        glDrawElements 6,
        glBindFramebuffer GL_FRAMEBUFFER 0, glViewport 0 0 200 200,
        glUseProgram 17,
        glActiveTexture 0, glBindTexture 45,
        glUniform1i 21 0,
        glDrawElements 6,
        glBindVertexArray 0]"
proof -
  let ?s = "initResources seq_driver 200 200 blend_installed"
  have h: "(200::int) \<noteq> savedWidth blend_installed \<or> (200::int) \<noteq> savedHeight blend_installed
      \<or> rawTexture blend_installed = 0"
    by (simp add: blend_installed_fields)
  have n: "length (trace (release_old blend_installed)) = 0"
    by (simp add: blend_installed_release blend_installed_fields)
  note t = first_frame_then_blend [OF blend_installed_reachable h, of seq_driver,
      unfolded Let_def n blend_first_render]
  show ?thesis
  proof (rule exE [OF t], goal_cases)
    case (1 st1)
    have e: "st1 = blend_first" using 1 by simp
    note b = 1 [THEN conjunct2, unfolded e]
    have names: "blendProgram ?s = 10" "locCurrent ?s = 14" "locHistory ?s = 15"
        "locFactor ?s = 16" "drawProgram ?s = 17" "locTexture ?s = 21" "vao' ?s = 22"
        "rawTexture ?s = 35" "rawFBO' ?s = 42" "historyTextures ?s = (45, 57)"
        "historyFBOs ?s = (52, 64)" "isFirstFrame ?s"
      using b by (simp_all add: seq_driver_def)
    have first: "new_calls ?s blend_first =
       [glGetFramebufferBinding,
        glDisable GL_SCISSOR_TEST, glDisable GL_DEPTH_TEST, glDisable GL_BLEND,
        glBindFramebuffer GL_READ_FRAMEBUFFER 0,
        glBindFramebuffer GL_DRAW_FRAMEBUFFER 42,
        glBlitFramebuffer 0 0 200 200 0 0 100 100,
        glBindVertexArray 22,
        glViewport 0 0 100 100,
        glBindFramebuffer GL_FRAMEBUFFER 52,
        glUseProgram 17,
        glActiveTexture 0, glBindTexture 35,
        glUniform1i 21 0,
        glDrawElements 6,
        glBindFramebuffer GL_FRAMEBUFFER 0, glViewport 0 0 200 200,
        glUseProgram 17,
        glActiveTexture 0, glBindTexture 45,
        glUniform1i 21 0,
        glDrawElements 6,
        glBindVertexArray 0]"
      using b [THEN conjunct2, THEN conjunct2, THEN conjunct2, THEN conjunct2, THEN conjunct2,
          THEN conjunct2, THEN conjunct2, THEN conjunct2, THEN conjunct2, THEN conjunct2,
          THEN conjunct2, THEN conjunct2, THEN conjunct2, THEN conjunct2, THEN conjunct2,
          THEN conjunct1]
      unfolding names by (simp add: blend_installed_fields scaled_values)
    have f1: "\<not> isFirstFrame blend_first" "pingPongIndex blend_first = 1"
        "rawTexture blend_first = 35"
      using b names(8) by (simp_all add: blend_installed_fields)
    have p1: "blendProgram blend_first = 10" "drawProgram blend_first = 17"
      using render_effect_fields(7,8) [OF blend_first_render] b names by simp_all
    have nz: "rawTexture ?s \<noteq> 0" unfolding names by simp
    note later = b [THEN conjunct2, THEN conjunct2, THEN conjunct2, THEN conjunct2,
        THEN conjunct2, THEN conjunct2, THEN conjunct2, THEN conjunct2, THEN conjunct2,
        THEN conjunct2, THEN conjunct2, THEN conjunct2, THEN conjunct2, THEN conjunct2,
        THEN conjunct2, THEN conjunct2, THEN conjunct2, THEN conjunct2, THEN conjunct2,
        THEN conjunct2, THEN mp, OF nz, unfolded names]
    note l1 = later [THEN spec [where x = blend_first], THEN spec [where x = seq_driver],
        THEN mp, OF later_at.later_now]
    have r2: "render_effect seq_driver 200 200 blend_first = Inr blend_second"
      using l1 by (auto simp: blend_second_def)
    have second: "new_calls blend_first blend_second =
       [glGetFramebufferBinding,
        glDisable GL_SCISSOR_TEST, glDisable GL_DEPTH_TEST, glDisable GL_BLEND,
        glBindFramebuffer GL_READ_FRAMEBUFFER 0,
        glBindFramebuffer GL_DRAW_FRAMEBUFFER 42,
        glBlitFramebuffer 0 0 200 200 0 0 100 100,
        glBindVertexArray 22,
        glViewport 0 0 100 100,
        glBindFramebuffer GL_FRAMEBUFFER 64,
        glUseProgram 10,
        glActiveTexture 0, glBindTexture 35,
        glUniform1i 14 0,
        glActiveTexture 1, glBindTexture 45,
        glUniform1i 15 1,
        glUniform1f 16 BLUR_STRENGTH,
        glDrawElements 6,
        glBindFramebuffer GL_FRAMEBUFFER 0, glViewport 0 0 200 200,
        glUseProgram 17,
        glActiveTexture 0, glBindTexture 57,
        glUniform1i 21 0,
        glDrawElements 6,
        glBindVertexArray 0]"
      using l1 unfolding r2 f1 by (simp add: scaled_values)
    have la: "later_at 200 200 blend_first blend_second"
      using later_at.later_frame [OF later_at.later_now r2] .
    have f2: "pingPongIndex blend_second = 0"
      using render_effect_fields(1) [OF r2] f1 by simp
    note l2 = later [THEN spec [where x = blend_second], THEN spec [where x = seq_driver],
        THEN mp, OF la]
    have r3: "render_effect seq_driver 200 200 blend_second = Inr blend_third"
      using l2 by (auto simp: blend_third_def)
    have third: "new_calls blend_second blend_third =
       [glGetFramebufferBinding,
        glDisable GL_SCISSOR_TEST, glDisable GL_DEPTH_TEST, glDisable GL_BLEND,
        glBindFramebuffer GL_READ_FRAMEBUFFER 0,
        glBindFramebuffer GL_DRAW_FRAMEBUFFER 42,
        glBlitFramebuffer 0 0 200 200 0 0 100 100,
        glBindVertexArray 22,
        glViewport 0 0 100 100,
        glBindFramebuffer GL_FRAMEBUFFER 52,
        glUseProgram 10,
        glActiveTexture 0, glBindTexture 35,
        glUniform1i 14 0,
        glActiveTexture 1, glBindTexture 57,
        glUniform1i 15 1,
        glUniform1f 16 BLUR_STRENGTH,
        glDrawElements 6,
        glBindFramebuffer GL_FRAMEBUFFER 0, glViewport 0 0 200 200,
        glUseProgram 17,
        glActiveTexture 0, glBindTexture 45,
        glUniform1i 21 0,
        glDrawElements 6,
        glBindVertexArray 0]"
      using l2 unfolding r3 f2 by (simp add: scaled_values)
    show ?case
      unfolding first second third
      using blend_installed_reachable blend_installed_fields(3) blend_first_render names(12)
        f1 p1 r2 la r3
      by simp
  qed
qed

section \<open>Rounding in single precision\<close>

text \<open>
  The rounding error of \<open>fl\<close> is at most half a unit in the last place, a relative
  error of at most \<open>2^-24\<close>; \<open>fl_eval\<close> and \<open>fl_eval_tie\<close> compute \<open>fl\<close> at a given
  number from its scaled integer.
\<close>

lemma rne_err: "\<bar>of_int (rne y) - y\<bar> \<le> 1 / 2"
proof -
  have f: "0 \<le> y - of_int \<lfloor>y\<rfloor>" "y - of_int \<lfloor>y\<rfloor> < 1" by linarith+
  consider (down) "rne y = \<lfloor>y\<rfloor>" "y - of_int \<lfloor>y\<rfloor> \<le> 1 / 2"
    | (up) "rne y = \<lfloor>y\<rfloor> + 1" "1 / 2 \<le> y - of_int \<lfloor>y\<rfloor>"
    by (cases "y - of_int \<lfloor>y\<rfloor> < 1 / 2 \<or> (y - of_int \<lfloor>y\<rfloor> = 1 / 2 \<and> even \<lfloor>y\<rfloor>)")
       (auto simp: rne_def Let_def)
  then show ?thesis
  proof cases
    case down
    then show ?thesis using f by simp
  next
    case up
    then show ?thesis using f by simp
  qed
qed

lemma rne_unique: "\<bar>y - of_int n\<bar> < 1 / 2 \<Longrightarrow> rne y = n"
proof -
  assume a: "\<bar>y - of_int n\<bar> < 1 / 2"
  have e: "\<bar>of_int (rne y) - y\<bar> \<le> 1 / 2" by (rule rne_err)
  have "\<bar>(of_int (rne y) :: real) - of_int n\<bar> < 1" using a e by linarith
  then have "\<bar>(of_int (rne y - n) :: real)\<bar> < 1" by simp
  then have "\<bar>rne y - n\<bar> < 1" by (simp only: of_int_abs [symmetric] of_int_less_1_iff)
  then show ?thesis by simp
qed



lemma fl_eval:
  assumes "2 ^ 23 \<le> \<bar>x\<bar> * 2 ^ k" and "\<bar>x\<bar> * 2 ^ k < 2 ^ 24"
    and "\<bar>x * 2 ^ k - of_int n\<bar> < 1 / 2"
  shows "fl x = of_int n / 2 ^ k"
proof -
  have nz: "x \<noteq> 0" using assms(1) by auto
  then have pos: "0 < \<bar>x\<bar>" by simp
  have p: "(2::real) powr (of_int (23 - int k)) = 2 ^ 23 / 2 ^ k"
    by (simp add: powr_diff powr_realpow powr_numeral)
  have p': "(2::real) powr (of_int (23 - int k) + 1) = 2 ^ 24 / 2 ^ k"
    by (simp add: powr_diff powr_add powr_realpow powr_numeral)
  have "2 powr (of_int (23 - int k)) \<le> \<bar>x\<bar>"
    unfolding p using assms(1) by (simp add: field_simps)
  moreover have "\<bar>x\<bar> < 2 powr (of_int (23 - int k) + 1)"
    unfolding p' using assms(2) by (simp add: field_simps)
  ultimately have E: "\<lfloor>log 2 \<bar>x\<bar>\<rfloor> = 23 - int k"
    using floor_log_eq_powr_iff [OF pos, of 2 "23 - int k"] by simp
  have q: "(2::real) powr (real k) = 2 ^ k" by (simp add: powr_realpow)
  have q': "(2::real) powr (- real k) = 1 / 2 ^ k"
    by (simp add: powr_minus powr_realpow field_simps)
  have "rne (x * 2 ^ k) = n" using assms(3) by (rule rne_unique)
  then show ?thesis using nz by (simp add: fl_def Let_def E q q')
qed












section \<open>Sharpening a flat image\<close>


lemma BLUR_STRENGTH_float: "BLUR_STRENGTH = fl 0.60"
  unfolding BLUR_STRENGTH_def
  using fl_eval [of "0.60" 24 10066330] by simp














end
